theory Spec2Isabelle
  imports Complex_Main
begin

section \<open>Scalar fields on a uniform grid (grid.hpp, grid.cpp)\<close>

text \<open>
  A \<open>Grid\<close> is the C++ class of the same name: cell counts, spacings, origin and a
  vector of \<open>nx\<close> rows of \<open>ny\<close> doubles. Doubles are modelled as exact reals, so
  rounding, infinities and NaN are outside the model. The cell counts of a constructed grid are
  never negative, so the record keeps them as naturals; the constructor itself takes the C++
  \<open>int\<close> arguments as integers.
\<close>

record Grid =
  nx :: nat
  ny :: nat
  dx :: real
  dy :: real
  x0 :: real
  y0 :: real
  data :: "real list list"

datatype error = LengthError | InvalidArgument

text \<open>
  \<open>Grid::Grid\<close>. The member initialiser builds the data vector before the body runs:
  \<open>std::vector<double>(ny_, 0.0)\<close> and then \<open>nx_\<close> copies of it. A negative count
  converts to a size above \<open>max_size()\<close> and the vector constructor throws
  \<open>std::length_error\<close>; otherwise the body throws \<open>std::invalid_argument\<close> when a
  dimension is below three. Memory exhaustion is not modelled.
\<close>

definition Grid_ctor :: "int \<Rightarrow> int \<Rightarrow> real \<Rightarrow> real \<Rightarrow> real \<Rightarrow> real \<Rightarrow> error + Grid" where
  "Grid_ctor nxa nya dxa dya x0a y0a =
     (if nya < 0 then Inl LengthError
      else if nxa < 0 then Inl LengthError
      else if nxa < 3 \<or> nya < 3 then Inl InvalidArgument
      else Inr \<lparr>nx = nat nxa, ny = nat nya, dx = dxa, dy = dya, x0 = x0a, y0 = y0a,
                data = replicate (nat nxa) (replicate (nat nya) 0)\<rparr>)"

text \<open>The assignment \<open>a[i][j] = x\<close> on a vector of vectors.\<close>

definition set2 :: "real list list \<Rightarrow> nat \<Rightarrow> nat \<Rightarrow> real \<Rightarrow> real list list" where
  "set2 a i j x = a[i := (a ! i)[j := x]]"

text \<open>
  A loop nest \<open>for i in is: for j in js: a[i][j] = f i j\<close> whose right-hand side does not
  read the array being written. The OpenMP loops of the solver are all of this shape (each
  iteration writes only its own cell), so their sequential order is the order of the lists.
\<close>

definition for_cells :: "nat list \<Rightarrow> nat list \<Rightarrow> (nat \<Rightarrow> nat \<Rightarrow> real) \<Rightarrow> real list list \<Rightarrow> real list list" where
  "for_cells is js f a = fold (\<lambda>i. fold (\<lambda>j b. set2 b i j (f i j)) js) is a"

text \<open>\<open>Grid::fill\<close>: every cell of the \<open>nx\<close> by \<open>ny\<close> index range is set.\<close>

definition fill :: "Grid \<Rightarrow> real \<Rightarrow> Grid" where
  "fill g w = g\<lparr>data := for_cells [0..<nx g] [0..<ny g] (\<lambda>i j. w) (data g)\<rparr>"

section \<open>Scalar kernels of the solver (solver.cpp)\<close>

definition ETA :: real where "ETA = 0.001"
definition CH :: real where "CH = 0.8"
definition CR :: real where "CR = 0.01"
definition gamma_gas :: real where "gamma_gas = 5 / 3"

text \<open>The literals \<open>1e-10\<close> (positivity floor) and \<open>1e10\<close> (initial CFL minimum).\<close>

definition floor_val :: real where "floor_val = 1 / 10 ^ 10"
definition dt_huge :: real where "dt_huge = 10 ^ 10"

definition laplacian :: "Grid \<Rightarrow> nat \<Rightarrow> nat \<Rightarrow> real" where
  "laplacian g i j =
     (data g ! (i + 1) ! j - 2 * data g ! i ! j + data g ! (i - 1) ! j) / (dx g * dx g)
   + (data g ! i ! (j + 1) - 2 * data g ! i ! j + data g ! i ! (j - 1)) / (dy g * dy g)"

definition minmod :: "real \<Rightarrow> real \<Rightarrow> real" where
  "minmod a b = (if a * b \<le> 0 then 0 else if \<bar>a\<bar> < \<bar>b\<bar> then a else b)"

text \<open>
  The kernels below divide by the density, by \<open>|u| + c\<^sub>f\<close> and by \<open>S\<^sub>R - S\<^sub>L\<close>, and
  take the square root of \<open>gamma * p / rho + |B|\<^sup>2 / rho\<close>. For positive density and
  pressure these are ordinary real operations and the definitions are the code's values in
  exact arithmetic. For zero or negative density or a negative radicand the code yields an
  infinity or a NaN, which the reals do not have; the definitions are then total functions
  of HOL with no counterpart in the code, and the properties of the step are stated for
  physical states only.
\<close>

definition compute_fast_speed :: "real \<Rightarrow> real \<Rightarrow> real \<Rightarrow> real \<Rightarrow> real" where
  "compute_fast_speed rho p Bx By =
     (let cs2 = gamma_gas * p / rho;
          ca2 = (Bx * Bx + By * By) / rho
      in sqrt (cs2 + ca2))"

record HLLFlux =
  F_rho :: real
  F_momx :: real
  F_momy :: real
  F_E :: real
  F_Bx :: real
  F_By :: real
  F_psi :: real

definition compute_hll_flux_x ::
  "real \<Rightarrow> real \<Rightarrow> real \<Rightarrow> real \<Rightarrow> real \<Rightarrow> real \<Rightarrow> real \<Rightarrow>
   real \<Rightarrow> real \<Rightarrow> real \<Rightarrow> real \<Rightarrow> real \<Rightarrow> real \<Rightarrow> real \<Rightarrow> HLLFlux" where
  "compute_hll_flux_x rhoL uL vL pL BxL ByL psiL rhoR uR vR pR BxR ByR psiR =
     (let B2L = BxL * BxL + ByL * ByL;
          B2R = BxR * BxR + ByR * ByR;
          ptL = pL + 0.5 * B2L;
          ptR = pR + 0.5 * B2R;
          EL = pL / (gamma_gas - 1) + 0.5 * rhoL * (uL * uL + vL * vL) + 0.5 * B2L;
          ER = pR / (gamma_gas - 1) + 0.5 * rhoR * (uR * uR + vR * vR) + 0.5 * B2R;
          cfL = compute_fast_speed rhoL pL BxL ByL;
          cfR = compute_fast_speed rhoR pR BxR ByR;
          SL = min (uL - cfL) (uR - cfR);
          SR = max (uL + cfL) (uR + cfR)
      in if SL > 0 then
           \<lparr>F_rho = rhoL * uL,
            F_momx = rhoL * uL * uL + ptL - BxL * BxL,
            F_momy = rhoL * uL * vL - BxL * ByL,
            F_E = (EL + ptL) * uL - BxL * (uL * BxL + vL * ByL),
            F_Bx = psiL,
            F_By = uL * ByL - vL * BxL,
            F_psi = CH * CH * BxL\<rparr>
         else if SR < 0 then
           \<lparr>F_rho = rhoR * uR,
            F_momx = rhoR * uR * uR + ptR - BxR * BxR,
            F_momy = rhoR * uR * vR - BxR * ByR,
            F_E = (ER + ptR) * uR - BxR * (uR * BxR + vR * ByR),
            F_Bx = psiR,
            F_By = uR * ByR - vR * BxR,
            F_psi = CH * CH * BxR\<rparr>
         else
           (let FL_rho = rhoL * uL;
                FR_rho = rhoR * uR;
                FL_momx = rhoL * uL * uL + ptL - BxL * BxL;
                FR_momx = rhoR * uR * uR + ptR - BxR * BxR;
                FL_momy = rhoL * uL * vL - BxL * ByL;
                FR_momy = rhoR * uR * vR - BxR * ByR;
                FL_E = (EL + ptL) * uL - BxL * (uL * BxL + vL * ByL);
                FR_E = (ER + ptR) * uR - BxR * (uR * BxR + vR * ByR);
                FL_By = uL * ByL - vL * BxL;
                FR_By = uR * ByR - vR * BxR
            in \<lparr>F_rho = (SR * FL_rho - SL * FR_rho + SL * SR * (rhoR - rhoL)) / (SR - SL),
                F_momx = (SR * FL_momx - SL * FR_momx + SL * SR * (rhoR * uR - rhoL * uL)) / (SR - SL),
                F_momy = (SR * FL_momy - SL * FR_momy + SL * SR * (rhoR * vR - rhoL * vL)) / (SR - SL),
                F_E = (SR * FL_E - SL * FR_E + SL * SR * (ER - EL)) / (SR - SL),
                F_Bx = (SR * psiL - SL * psiR + SL * SR * (BxR - BxL)) / (SR - SL),
                F_By = (SR * FL_By - SL * FR_By + SL * SR * (ByR - ByL)) / (SR - SL),
                F_psi = CH * CH * (SR * BxL - SL * BxR + SL * SR * (psiR - psiL)) / (SR - SL)\<rparr>))"

definition compute_hll_flux_y ::
  "real \<Rightarrow> real \<Rightarrow> real \<Rightarrow> real \<Rightarrow> real \<Rightarrow> real \<Rightarrow> real \<Rightarrow>
   real \<Rightarrow> real \<Rightarrow> real \<Rightarrow> real \<Rightarrow> real \<Rightarrow> real \<Rightarrow> real \<Rightarrow> HLLFlux" where
  "compute_hll_flux_y rhoL uL vL pL BxL ByL psiL rhoR uR vR pR BxR ByR psiR =
     (let B2L = BxL * BxL + ByL * ByL;
          B2R = BxR * BxR + ByR * ByR;
          ptL = pL + 0.5 * B2L;
          ptR = pR + 0.5 * B2R;
          EL = pL / (gamma_gas - 1) + 0.5 * rhoL * (uL * uL + vL * vL) + 0.5 * B2L;
          ER = pR / (gamma_gas - 1) + 0.5 * rhoR * (uR * uR + vR * vR) + 0.5 * B2R;
          cfL = compute_fast_speed rhoL pL BxL ByL;
          cfR = compute_fast_speed rhoR pR BxR ByR;
          SL = min (vL - cfL) (vR - cfR);
          SR = max (vL + cfL) (vR + cfR)
      in if SL > 0 then
           \<lparr>F_rho = rhoL * vL,
            F_momx = rhoL * vL * uL - ByL * BxL,
            F_momy = rhoL * vL * vL + ptL - ByL * ByL,
            F_E = (EL + ptL) * vL - ByL * (uL * BxL + vL * ByL),
            F_Bx = vL * BxL - uL * ByL,
            F_By = psiL,
            F_psi = CH * CH * ByL\<rparr>
         else if SR < 0 then
           \<lparr>F_rho = rhoR * vR,
            F_momx = rhoR * vR * uR - ByR * BxR,
            F_momy = rhoR * vR * vR + ptR - ByR * ByR,
            F_E = (ER + ptR) * vR - ByR * (uR * BxR + vR * ByR),
            F_Bx = vR * BxR - uR * ByR,
            F_By = psiR,
            F_psi = CH * CH * ByR\<rparr>
         else
           (let FL_rho = rhoL * vL;
                FR_rho = rhoR * vR;
                FL_momx = rhoL * vL * uL - ByL * BxL;
                FR_momx = rhoR * vR * uR - ByR * BxR;
                FL_momy = rhoL * vL * vL + ptL - ByL * ByL;
                FR_momy = rhoR * vR * vR + ptR - ByR * ByR;
                FL_E = (EL + ptL) * vL - ByL * (uL * BxL + vL * ByL);
                FR_E = (ER + ptR) * vR - ByR * (uR * BxR + vR * ByR);
                FL_Bx = vL * BxL - uL * ByL;
                FR_Bx = vR * BxR - uR * ByR
            in \<lparr>F_rho = (SR * FL_rho - SL * FR_rho + SL * SR * (rhoR - rhoL)) / (SR - SL),
                F_momx = (SR * FL_momx - SL * FR_momx + SL * SR * (rhoR * uR - rhoL * uL)) / (SR - SL),
                F_momy = (SR * FL_momy - SL * FR_momy + SL * SR * (rhoR * vR - rhoL * vL)) / (SR - SL),
                F_E = (SR * FL_E - SL * FR_E + SL * SR * (ER - EL)) / (SR - SL),
                F_Bx = (SR * FL_Bx - SL * FR_Bx + SL * SR * (BxR - BxL)) / (SR - SL),
                F_By = (SR * psiL - SL * psiR + SL * SR * (ByR - ByL)) / (SR - SL),
                F_psi = CH * CH * (SR * ByL - SL * ByR + SL * SR * (psiR - psiL)) / (SR - SL)\<rparr>))"

subsection \<open>The flux in the words of the specification\<close>

text \<open>
  The vocabulary of the flux specification: the total energy of a primitive state, the
  ideal-MHD flux of one state along each axis with the GLM coupling (the normal magnetic
  component is transported by \<open>psi\<close>, and \<open>psi\<close> by \<open>c_h\<^sup>2\<close> times the normal
  magnetic component), and the HLL average of one component.
\<close>

definition total_energy :: "real \<Rightarrow> real \<Rightarrow> real \<Rightarrow> real \<Rightarrow> real \<Rightarrow> real \<Rightarrow> real" where
  "total_energy rho u v p Bx By =
     p / (gamma_gas - 1) + 0.5 * rho * (u * u + v * v) + 0.5 * (Bx * Bx + By * By)"

definition physical_flux_x :: "real \<Rightarrow> real \<Rightarrow> real \<Rightarrow> real \<Rightarrow> real \<Rightarrow> real \<Rightarrow> real \<Rightarrow> HLLFlux" where
  "physical_flux_x rho u v p Bx By psi =
     (let pt = p + 0.5 * (Bx * Bx + By * By);
          E = total_energy rho u v p Bx By
      in \<lparr>F_rho = rho * u,
          F_momx = rho * u * u + pt - Bx * Bx,
          F_momy = rho * u * v - Bx * By,
          F_E = (E + pt) * u - Bx * (u * Bx + v * By),
          F_Bx = psi,
          F_By = u * By - v * Bx,
          F_psi = CH * CH * Bx\<rparr>)"

definition physical_flux_y :: "real \<Rightarrow> real \<Rightarrow> real \<Rightarrow> real \<Rightarrow> real \<Rightarrow> real \<Rightarrow> real \<Rightarrow> HLLFlux" where
  "physical_flux_y rho u v p Bx By psi =
     (let pt = p + 0.5 * (Bx * Bx + By * By);
          E = total_energy rho u v p Bx By
      in \<lparr>F_rho = rho * v,
          F_momx = rho * v * u - By * Bx,
          F_momy = rho * v * v + pt - By * By,
          F_E = (E + pt) * v - By * (u * Bx + v * By),
          F_Bx = v * Bx - u * By,
          F_By = psi,
          F_psi = CH * CH * By\<rparr>)"

definition hll_average :: "real \<Rightarrow> real \<Rightarrow> real \<Rightarrow> real \<Rightarrow> real \<Rightarrow> real \<Rightarrow> real" where
  "hll_average SL SR FL FR UL UR = (SR * FL - SL * FR + SL * SR * (UR - UL)) / (SR - SL)"

text \<open>
  The component-wise HLL average of the seven fluxes, each component paired with its own
  conserved quantity: mass, the two momenta, total energy, the two magnetic components and
  \<open>psi\<close>.
\<close>

definition hll_componentwise ::
  "real \<Rightarrow> real \<Rightarrow> HLLFlux \<Rightarrow> HLLFlux \<Rightarrow>
   real \<Rightarrow> real \<Rightarrow> real \<Rightarrow> real \<Rightarrow> real \<Rightarrow> real \<Rightarrow> real \<Rightarrow>
   real \<Rightarrow> real \<Rightarrow> real \<Rightarrow> real \<Rightarrow> real \<Rightarrow> real \<Rightarrow> real \<Rightarrow> HLLFlux" where
  "hll_componentwise SL SR FL FR rhoL uL vL pL BxL ByL psiL rhoR uR vR pR BxR ByR psiR =
     \<lparr>F_rho = hll_average SL SR (F_rho FL) (F_rho FR) rhoL rhoR,
      F_momx = hll_average SL SR (F_momx FL) (F_momx FR) (rhoL * uL) (rhoR * uR),
      F_momy = hll_average SL SR (F_momy FL) (F_momy FR) (rhoL * vL) (rhoR * vR),
      F_E = hll_average SL SR (F_E FL) (F_E FR)
              (total_energy rhoL uL vL pL BxL ByL) (total_energy rhoR uR vR pR BxR ByR),
      F_Bx = hll_average SL SR (F_Bx FL) (F_Bx FR) BxL BxR,
      F_By = hll_average SL SR (F_By FL) (F_By FR) ByL ByR,
      F_psi = hll_average SL SR (F_psi FL) (F_psi FR) psiL psiR\<rparr>"

text \<open>
  The flux along x as the specification words it: the left flux when \<open>S_L > 0\<close>, the
  right flux when \<open>S_R < 0\<close>, the component-wise HLL average otherwise.
\<close>

definition hll_as_specified_x ::
  "real \<Rightarrow> real \<Rightarrow> real \<Rightarrow> real \<Rightarrow> real \<Rightarrow> real \<Rightarrow> real \<Rightarrow>
   real \<Rightarrow> real \<Rightarrow> real \<Rightarrow> real \<Rightarrow> real \<Rightarrow> real \<Rightarrow> real \<Rightarrow> HLLFlux \<Rightarrow> bool" where
  "hll_as_specified_x rhoL uL vL pL BxL ByL psiL rhoR uR vR pR BxR ByR psiR f =
     (let cfL = compute_fast_speed rhoL pL BxL ByL;
          cfR = compute_fast_speed rhoR pR BxR ByR;
          SL = min (uL - cfL) (uR - cfR);
          SR = max (uL + cfL) (uR + cfR);
          FL = physical_flux_x rhoL uL vL pL BxL ByL psiL;
          FR = physical_flux_x rhoR uR vR pR BxR ByR psiR
      in (SL > 0 \<longrightarrow> f = FL) \<and> (SR < 0 \<longrightarrow> f = FR) \<and>
         (\<not> SL > 0 \<and> \<not> SR < 0 \<longrightarrow>
            f = hll_componentwise SL SR FL FR rhoL uL vL pL BxL ByL psiL rhoR uR vR pR BxR ByR psiR))"

section \<open>The flow state (grid.hpp)\<close>

record FlowField =
  rho :: Grid
  u :: Grid
  v :: Grid
  p :: Grid
  e :: Grid
  bx :: Grid
  by' :: Grid
  psi :: Grid

definition then_err :: "error + 'a \<Rightarrow> ('a \<Rightarrow> error + 'b) \<Rightarrow> error + 'b" where
  "then_err r k = (case r of Inl x \<Rightarrow> Inl x | Inr a \<Rightarrow> k a)"

text \<open>
  \<open>FlowField::FlowField(int, int, double, double, double, double)\<close>: the eight member grids
  are constructed in declaration order, the first failure propagates, and the body repeats the
  dimension check.
\<close>

definition FlowField_ctor :: "int \<Rightarrow> int \<Rightarrow> real \<Rightarrow> real \<Rightarrow> real \<Rightarrow> real \<Rightarrow> error + FlowField" where
  "FlowField_ctor nxa nya dxa dya x0a y0a =
     then_err (Grid_ctor nxa nya dxa dya x0a y0a) (\<lambda>g_rho.
     then_err (Grid_ctor nxa nya dxa dya x0a y0a) (\<lambda>g_u.
     then_err (Grid_ctor nxa nya dxa dya x0a y0a) (\<lambda>g_v.
     then_err (Grid_ctor nxa nya dxa dya x0a y0a) (\<lambda>g_p.
     then_err (Grid_ctor nxa nya dxa dya x0a y0a) (\<lambda>g_e.
     then_err (Grid_ctor nxa nya dxa dya x0a y0a) (\<lambda>g_bx.
     then_err (Grid_ctor nxa nya dxa dya x0a y0a) (\<lambda>g_by.
     then_err (Grid_ctor nxa nya dxa dya x0a y0a) (\<lambda>g_psi.
       if nxa < 3 \<or> nya < 3 then Inl InvalidArgument
       else Inr \<lparr>rho = g_rho, u = g_u, v = g_v, p = g_p, e = g_e,
                 bx = g_bx, by' = g_by, psi = g_psi\<rparr>))))))))"

definition has_dims :: "real list list \<Rightarrow> nat \<Rightarrow> nat \<Rightarrow> bool" where
  "has_dims a n m = (length a = n \<and> list_all (\<lambda>r. length r = m) a)"

definition all_grids :: "FlowField \<Rightarrow> Grid list" where
  "all_grids flow = [rho flow, u flow, v flow, p flow, e flow, bx flow, by' flow, psi flow]"

text \<open>
  A flow state as the constructor leaves it and the solver keeps it: at least 3 by 3 cells,
  and every one of the eight data arrays of exactly the size recorded in \<open>rho\<close>, the grid
  the solver takes its geometry from.
\<close>

definition valid_flow :: "FlowField \<Rightarrow> bool" where
  "valid_flow flow =
     (3 \<le> nx (rho flow) \<and> 3 \<le> ny (rho flow) \<and>
      list_all (\<lambda>g. has_dims (data g) (nx (rho flow)) (ny (rho flow))) (all_grids flow))"

section \<open>The CFL timestep (solver.cpp, compute_cfl_timestep)\<close>

text \<open>
  The candidate of one interior cell, \<open>std::min(dt_x, dt_y)\<close>, and the reduction over the
  interior cells starting from \<open>1e10\<close>. The default argument \<open>cfl_number = 0.2\<close> is in
  solver.hpp.
\<close>

definition cell_dt :: "FlowField \<Rightarrow> nat \<Rightarrow> nat \<Rightarrow> real" where
  "cell_dt flow i j =
     (let grid = rho flow;
          rhoc = data (rho flow) ! i ! j;
          uc = data (u flow) ! i ! j;
          vc = data (v flow) ! i ! j;
          pc = data (p flow) ! i ! j;
          Bx = data (bx flow) ! i ! j;
          By = data (by' flow) ! i ! j;
          cf = compute_fast_speed rhoc pc Bx By;
          dt_x = dx grid / (\<bar>uc\<bar> + cf);
          dt_y = dy grid / (\<bar>vc\<bar> + cf)
      in min dt_x dt_y)"

definition compute_cfl_timestep :: "FlowField \<Rightarrow> real \<Rightarrow> real" where
  "compute_cfl_timestep flow cfl_number =
     (let grid = rho flow;
          dt_min0 = fold (\<lambda>i. fold (\<lambda>j acc. min acc (cell_dt flow i j)) [1..<ny grid - 1])
                         [1..<nx grid - 1] dt_huge;
          dt_glm = min (dx grid) (dy grid) / CH;
          dt_min = (if dt_min0 > 1 then min (dx grid) (dy grid) / CH else dt_min0)
      in cfl_number * min dt_min dt_glm)"

definition cfl_number_default :: real where
  "cfl_number_default = 0.2"

section \<open>One timestep (solver.cpp, update_level)\<close>

subsection \<open>Limited slopes\<close>

definition zero_array :: "nat \<Rightarrow> nat \<Rightarrow> real list list" where
  "zero_array n m = replicate n (replicate m 0)"

definition slope_x :: "Grid \<Rightarrow> nat \<Rightarrow> nat \<Rightarrow> real" where
  "slope_x g i j =
     minmod (data g ! i ! j - data g ! (i - 1) ! j) (data g ! (i + 1) ! j - data g ! i ! j)"

definition slope_y :: "Grid \<Rightarrow> nat \<Rightarrow> nat \<Rightarrow> real" where
  "slope_y g i j =
     minmod (data g ! i ! j - data g ! i ! (j - 1)) (data g ! i ! (j + 1) - data g ! i ! j)"

text \<open>
  The fourteen slope arrays \<open>srho_x\<close> ... \<open>spsi_y\<close> are \<open>slopes_x flow (rho flow)\<close> ...
  \<open>slopes_y flow (psi flow)\<close>: zero-filled, then set on rows \<open>1..nx-2\<close> (x direction, all
  columns) or columns \<open>1..ny-2\<close> (y direction, all rows).
\<close>

definition slopes_x :: "FlowField \<Rightarrow> Grid \<Rightarrow> real list list" where
  "slopes_x flow g =
     (let grid = rho flow
      in for_cells [1..<nx grid - 1] [0..<ny grid] (slope_x g) (zero_array (nx grid) (ny grid)))"

definition slopes_y :: "FlowField \<Rightarrow> Grid \<Rightarrow> real list list" where
  "slopes_y flow g =
     (let grid = rho flow
      in for_cells [0..<nx grid] [1..<ny grid - 1] (slope_y g) (zero_array (nx grid) (ny grid)))"

subsection \<open>MUSCL face states and the four face fluxes of a cell\<close>

text \<open>
  \<open>recon_x flow g s i j\<close> is the expression \<open>g.data[i][j] + s*0.5*slope[i][j]\<close> of the
  source with \<open>s = 1\<close> (the state a cell offers to its upper face) or \<open>s = -1\<close> (to its
  lower face).
\<close>

definition recon_x :: "FlowField \<Rightarrow> Grid \<Rightarrow> real \<Rightarrow> nat \<Rightarrow> nat \<Rightarrow> real" where
  "recon_x flow g s i j = data g ! i ! j + s * (0.5 * slopes_x flow g ! i ! j)"

definition recon_y :: "FlowField \<Rightarrow> Grid \<Rightarrow> real \<Rightarrow> nat \<Rightarrow> nat \<Rightarrow> real" where
  "recon_y flow g s i j = data g ! i ! j + s * (0.5 * slopes_y flow g ! i ! j)"

definition flux_xp :: "FlowField \<Rightarrow> nat \<Rightarrow> nat \<Rightarrow> HLLFlux" where
  "flux_xp flow i j =
     compute_hll_flux_x
       (recon_x flow (rho flow) 1 i j) (recon_x flow (u flow) 1 i j)
       (recon_x flow (v flow) 1 i j) (recon_x flow (p flow) 1 i j)
       (recon_x flow (bx flow) 1 i j) (recon_x flow (by' flow) 1 i j)
       (recon_x flow (psi flow) 1 i j)
       (recon_x flow (rho flow) (- 1) (i + 1) j) (recon_x flow (u flow) (- 1) (i + 1) j)
       (recon_x flow (v flow) (- 1) (i + 1) j) (recon_x flow (p flow) (- 1) (i + 1) j)
       (recon_x flow (bx flow) (- 1) (i + 1) j) (recon_x flow (by' flow) (- 1) (i + 1) j)
       (recon_x flow (psi flow) (- 1) (i + 1) j)"

definition flux_xm :: "FlowField \<Rightarrow> nat \<Rightarrow> nat \<Rightarrow> HLLFlux" where
  "flux_xm flow i j =
     compute_hll_flux_x
       (recon_x flow (rho flow) 1 (i - 1) j) (recon_x flow (u flow) 1 (i - 1) j)
       (recon_x flow (v flow) 1 (i - 1) j) (recon_x flow (p flow) 1 (i - 1) j)
       (recon_x flow (bx flow) 1 (i - 1) j) (recon_x flow (by' flow) 1 (i - 1) j)
       (recon_x flow (psi flow) 1 (i - 1) j)
       (recon_x flow (rho flow) (- 1) i j) (recon_x flow (u flow) (- 1) i j)
       (recon_x flow (v flow) (- 1) i j) (recon_x flow (p flow) (- 1) i j)
       (recon_x flow (bx flow) (- 1) i j) (recon_x flow (by' flow) (- 1) i j)
       (recon_x flow (psi flow) (- 1) i j)"

definition flux_yp :: "FlowField \<Rightarrow> nat \<Rightarrow> nat \<Rightarrow> HLLFlux" where
  "flux_yp flow i j =
     compute_hll_flux_y
       (recon_y flow (rho flow) 1 i j) (recon_y flow (u flow) 1 i j)
       (recon_y flow (v flow) 1 i j) (recon_y flow (p flow) 1 i j)
       (recon_y flow (bx flow) 1 i j) (recon_y flow (by' flow) 1 i j)
       (recon_y flow (psi flow) 1 i j)
       (recon_y flow (rho flow) (- 1) i (j + 1)) (recon_y flow (u flow) (- 1) i (j + 1))
       (recon_y flow (v flow) (- 1) i (j + 1)) (recon_y flow (p flow) (- 1) i (j + 1))
       (recon_y flow (bx flow) (- 1) i (j + 1)) (recon_y flow (by' flow) (- 1) i (j + 1))
       (recon_y flow (psi flow) (- 1) i (j + 1))"

definition flux_ym :: "FlowField \<Rightarrow> nat \<Rightarrow> nat \<Rightarrow> HLLFlux" where
  "flux_ym flow i j =
     compute_hll_flux_y
       (recon_y flow (rho flow) 1 i (j - 1)) (recon_y flow (u flow) 1 i (j - 1))
       (recon_y flow (v flow) 1 i (j - 1)) (recon_y flow (p flow) 1 i (j - 1))
       (recon_y flow (bx flow) 1 i (j - 1)) (recon_y flow (by' flow) 1 i (j - 1))
       (recon_y flow (psi flow) 1 i (j - 1))
       (recon_y flow (rho flow) (- 1) i j) (recon_y flow (u flow) (- 1) i j)
       (recon_y flow (v flow) (- 1) i j) (recon_y flow (p flow) (- 1) i j)
       (recon_y flow (bx flow) (- 1) i j) (recon_y flow (by' flow) (- 1) i j)
       (recon_y flow (psi flow) (- 1) i j)"

subsection \<open>The update of one interior cell\<close>

text \<open>
  The finite-volume difference \<open>base - dt/dx * (F\<^sub>x\<^sub>p - F\<^sub>x\<^sub>m) - dt/dy * (F\<^sub>y\<^sub>p - F\<^sub>y\<^sub>m)\<close> for
  one flux component \<open>sel\<close>; here \<open>dt\<close> is the timestep after clamping.
\<close>

definition fv_update :: "FlowField \<Rightarrow> real \<Rightarrow> (HLLFlux \<Rightarrow> real) \<Rightarrow> real \<Rightarrow> nat \<Rightarrow> nat \<Rightarrow> real" where
  "fv_update flow dt sel base i j =
     (let grid = rho flow
      in base - dt / dx grid * (sel (flux_xp flow i j) - sel (flux_xm flow i j))
              - dt / dy grid * (sel (flux_yp flow i j) - sel (flux_ym flow i j)))"

text \<open>The loop that fills \<open>momx_new\<close> and \<open>momy_new\<close> on the whole grid.\<close>

definition momx_init :: "FlowField \<Rightarrow> real list list" where
  "momx_init flow =
     (let grid = rho flow
      in for_cells [0..<nx grid] [0..<ny grid]
           (\<lambda>i j. data (rho flow) ! i ! j * data (u flow) ! i ! j)
           (zero_array (nx grid) (ny grid)))"

definition momy_init :: "FlowField \<Rightarrow> real list list" where
  "momy_init flow =
     (let grid = rho flow
      in for_cells [0..<nx grid] [0..<ny grid]
           (\<lambda>i j. data (rho flow) ! i ! j * data (v flow) ! i ! j)
           (zero_array (nx grid) (ny grid)))"

text \<open>
  The body of the main loop at cell \<open>(i, j)\<close>, one function per array written. The body
  reads the old state, the slope arrays and its own cell of the temporaries only, so every
  written cell is a function of the old state. \<open>rho_upd\<close> is \<open>rho_new[i][j]\<close> before the floor
  of line 444, the value the energy check reads; the magnetic energy of that check reads
  \<open>bx_new[i][j]\<close> and \<open>by_new[i][j]\<close> before they are assigned, that is, the old field.
\<close>

definition rho_upd :: "FlowField \<Rightarrow> real \<Rightarrow> nat \<Rightarrow> nat \<Rightarrow> real" where
  "rho_upd flow dt i j = fv_update flow dt F_rho (data (rho flow) ! i ! j) i j"

definition rho_cell :: "FlowField \<Rightarrow> real \<Rightarrow> nat \<Rightarrow> nat \<Rightarrow> real" where
  "rho_cell flow dt i j = max (rho_upd flow dt i j) floor_val"

definition momx_cell :: "FlowField \<Rightarrow> real \<Rightarrow> real \<Rightarrow> nat \<Rightarrow> nat \<Rightarrow> real" where
  "momx_cell flow dt nu i j =
     (let m1 = fv_update flow dt F_momx (momx_init flow ! i ! j) i j
      in if nu > 0 then m1 + dt * nu * data (rho flow) ! i ! j * laplacian (u flow) i j else m1)"

definition momy_cell :: "FlowField \<Rightarrow> real \<Rightarrow> real \<Rightarrow> nat \<Rightarrow> nat \<Rightarrow> real" where
  "momy_cell flow dt nu i j =
     (let m1 = fv_update flow dt F_momy (momy_init flow ! i ! j) i j
      in if nu > 0 then m1 + dt * nu * data (rho flow) ! i ! j * laplacian (v flow) i j else m1)"

definition e_cell :: "FlowField \<Rightarrow> real \<Rightarrow> nat \<Rightarrow> nat \<Rightarrow> real" where
  "e_cell flow dt i j =
     (let uc = data (u flow) ! i ! j;
          vc = data (v flow) ! i ! j;
          e1 = fv_update flow dt F_E (data (e flow) ! i ! j) i j;
          ke_temp = 0.5 * rho_upd flow dt i j * (uc * uc + vc * vc);
          me_temp = 0.5 * (data (bx flow) ! i ! j * data (bx flow) ! i ! j
                         + data (by' flow) ! i ! j * data (by' flow) ! i ! j);
          e2 = (if e1 < ke_temp + me_temp + floor_val then ke_temp + me_temp + floor_val else e1)
      in max e2 floor_val)"

definition bx_cell :: "FlowField \<Rightarrow> real \<Rightarrow> nat \<Rightarrow> nat \<Rightarrow> real" where
  "bx_cell flow dt i j =
     (let b1 = fv_update flow dt F_Bx (data (bx flow) ! i ! j) i j
      in if ETA > 0 then b1 + dt * ETA * laplacian (bx flow) i j else b1)"

definition by_cell :: "FlowField \<Rightarrow> real \<Rightarrow> nat \<Rightarrow> nat \<Rightarrow> real" where
  "by_cell flow dt i j =
     (let b1 = fv_update flow dt F_By (data (by' flow) ! i ! j) i j
      in if ETA > 0 then b1 + dt * ETA * laplacian (by' flow) i j else b1)"

definition psi_cell :: "FlowField \<Rightarrow> real \<Rightarrow> nat \<Rightarrow> nat \<Rightarrow> real" where
  "psi_cell flow dt i j = fv_update flow dt F_psi (data (psi flow) ! i ! j) i j"

text \<open>
  The temporaries after the main loop: copies of the old arrays (the momenta: the products
  above) with the interior cells replaced.
\<close>

definition interior :: "nat \<Rightarrow> nat list" where
  "interior n = [1..<n - 1]"

definition rho_new :: "FlowField \<Rightarrow> real \<Rightarrow> real list list" where
  "rho_new flow dt =
     for_cells (interior (nx (rho flow))) (interior (ny (rho flow))) (rho_cell flow dt)
       (data (rho flow))"

definition momx_new :: "FlowField \<Rightarrow> real \<Rightarrow> real \<Rightarrow> real list list" where
  "momx_new flow dt nu =
     for_cells (interior (nx (rho flow))) (interior (ny (rho flow))) (momx_cell flow dt nu)
       (momx_init flow)"

definition momy_new :: "FlowField \<Rightarrow> real \<Rightarrow> real \<Rightarrow> real list list" where
  "momy_new flow dt nu =
     for_cells (interior (nx (rho flow))) (interior (ny (rho flow))) (momy_cell flow dt nu)
       (momy_init flow)"

definition e_new :: "FlowField \<Rightarrow> real \<Rightarrow> real list list" where
  "e_new flow dt =
     for_cells (interior (nx (rho flow))) (interior (ny (rho flow))) (e_cell flow dt)
       (data (e flow))"

definition bx_new :: "FlowField \<Rightarrow> real \<Rightarrow> real list list" where
  "bx_new flow dt =
     for_cells (interior (nx (rho flow))) (interior (ny (rho flow))) (bx_cell flow dt)
       (data (bx flow))"

definition by_new :: "FlowField \<Rightarrow> real \<Rightarrow> real list list" where
  "by_new flow dt =
     for_cells (interior (nx (rho flow))) (interior (ny (rho flow))) (by_cell flow dt)
       (data (by' flow))"

definition psi_new :: "FlowField \<Rightarrow> real \<Rightarrow> real list list" where
  "psi_new flow dt =
     for_cells (interior (nx (rho flow))) (interior (ny (rho flow))) (psi_cell flow dt)
       (data (psi flow))"

subsection \<open>Recovering the primitive variables\<close>

definition u_prim :: "FlowField \<Rightarrow> real \<Rightarrow> real \<Rightarrow> nat \<Rightarrow> nat \<Rightarrow> real" where
  "u_prim flow dt nu i j = momx_new flow dt nu ! i ! j / rho_new flow dt ! i ! j"

definition v_prim :: "FlowField \<Rightarrow> real \<Rightarrow> real \<Rightarrow> nat \<Rightarrow> nat \<Rightarrow> real" where
  "v_prim flow dt nu i j = momy_new flow dt nu ! i ! j / rho_new flow dt ! i ! j"

definition p_prim :: "FlowField \<Rightarrow> real \<Rightarrow> real \<Rightarrow> nat \<Rightarrow> nat \<Rightarrow> real" where
  "p_prim flow dt nu i j =
     (let ke = 0.5 * rho_new flow dt ! i ! j *
                 (u_prim flow dt nu i j * u_prim flow dt nu i j
                + v_prim flow dt nu i j * v_prim flow dt nu i j);
          me = 0.5 * (bx_new flow dt ! i ! j * bx_new flow dt ! i ! j
                    + by_new flow dt ! i ! j * by_new flow dt ! i ! j);
          ie = e_new flow dt ! i ! j - ke - me
      in (gamma_gas - 1) * max ie floor_val)"

subsection \<open>Periodic boundary conditions\<close>

text \<open>
  One iteration of each boundary loop for one field, with the two assignments in source
  order, and the loops over all columns and all rows.
\<close>

definition bc_x_step :: "nat \<Rightarrow> nat \<Rightarrow> real list list \<Rightarrow> real list list" where
  "bc_x_step n j a =
     (let left_src = (n + 0 - 2) mod n;
          right_src = (n - 1 + 2) mod n;
          a1 = set2 a 0 j (a ! left_src ! j)
      in set2 a1 (n - 1) j (a1 ! right_src ! j))"

definition bc_y_step :: "nat \<Rightarrow> nat \<Rightarrow> real list list \<Rightarrow> real list list" where
  "bc_y_step m i a =
     (let bot_src = (m + 0 - 2) mod m;
          top_src = (m - 1 + 2) mod m;
          a1 = set2 a i 0 (a ! i ! bot_src)
      in set2 a1 i (m - 1) (a1 ! i ! top_src))"

definition periodic_bc :: "nat \<Rightarrow> nat \<Rightarrow> real list list \<Rightarrow> real list list" where
  "periodic_bc n m a = fold (bc_y_step m) [0..<n] (fold (bc_x_step n) [0..<m] a)"

subsection \<open>GLM source term and the whole step\<close>

text \<open>
  The last loop, over every cell. The neighbour indices are those of the source; the lower
  ones are written \<open>(i + nx - 1) mod nx\<close> so that the natural-number subtraction is exact.
  The loop reads the temporaries \<open>psi_new\<close>, \<open>bx_new\<close> and \<open>by_new\<close>.
\<close>

definition glm_cell :: "FlowField \<Rightarrow> real \<Rightarrow> nat \<Rightarrow> nat \<Rightarrow> real" where
  "glm_cell flow dt i j =
     (let grid = rho flow;
          ip = (i + 1) mod nx grid;
          im = (i + nx grid - 1) mod nx grid;
          jp = (j + 1) mod ny grid;
          jm = (j + ny grid - 1) mod ny grid;
          divB_new = (bx_new flow dt ! ip ! j - bx_new flow dt ! im ! j) / (2 * dx grid)
                   + (by_new flow dt ! i ! jp - by_new flow dt ! i ! jm) / (2 * dy grid)
      in psi_new flow dt ! i ! j - dt * CH * CH * divB_new - dt * CR * psi_new flow dt ! i ! j)"

text \<open>
  The first two statements of \<open>update_level\<close>: the timestep every later statement uses.
\<close>

definition clamped_dt :: "FlowField \<Rightarrow> real \<Rightarrow> real" where
  "clamped_dt flow dt0 =
     (let dt_cfl = compute_cfl_timestep flow cfl_number_default
      in min dt0 dt_cfl)"

definition update_level :: "FlowField \<Rightarrow> real \<Rightarrow> real \<Rightarrow> FlowField" where
  "update_level flow dt0 nu =
     (let grid = rho flow;
          dt = clamped_dt flow dt0;
          is = interior (nx grid);
          js = interior (ny grid);
          bc = periodic_bc (nx grid) (ny grid)
      in flow\<lparr>
           rho := (rho flow)\<lparr>data := bc (for_cells is js (\<lambda>i j. rho_new flow dt ! i ! j) (data (rho flow)))\<rparr>,
           u := (u flow)\<lparr>data := bc (for_cells is js (u_prim flow dt nu) (data (u flow)))\<rparr>,
           v := (v flow)\<lparr>data := bc (for_cells is js (v_prim flow dt nu) (data (v flow)))\<rparr>,
           p := (p flow)\<lparr>data := bc (for_cells is js (p_prim flow dt nu) (data (p flow)))\<rparr>,
           e := (e flow)\<lparr>data := bc (for_cells is js (\<lambda>i j. e_new flow dt ! i ! j) (data (e flow)))\<rparr>,
           bx := (bx flow)\<lparr>data := bc (for_cells is js (\<lambda>i j. bx_new flow dt ! i ! j) (data (bx flow)))\<rparr>,
           by' := (by' flow)\<lparr>data := bc (for_cells is js (\<lambda>i j. by_new flow dt ! i ! j) (data (by' flow)))\<rparr>,
           psi := (psi flow)\<lparr>data := for_cells [0..<nx grid] [0..<ny grid] (glm_cell flow dt)
                                        (bc (data (psi flow)))\<rparr>\<rparr>)"

text \<open>\<open>solve_MHD\<close> has return type \<open>void\<close>: its only result is the updated state.\<close>

definition solve_MHD :: "FlowField \<Rightarrow> real \<Rightarrow> real \<Rightarrow> FlowField" where
  "solve_MHD flow dt nu = update_level flow dt nu"

section \<open>Vocabulary of the properties\<close>

text \<open>
  The interior cell a cell mirrors under the periodic rule: index \<open>0\<close> mirrors
  \<open>n - 2\<close>, index \<open>n - 1\<close> mirrors \<open>1\<close>, an interior index is its own mirror.
\<close>

definition wrap :: "nat \<Rightarrow> nat \<Rightarrow> nat" where
  "wrap n i = (if i = 0 then n - 2 else if i = n - 1 then 1 else i)"

text \<open>
  Test states on unit-spaced grids. \<open>flow_alt\<close> is a 4 by 3 state at rest, uniform except
  for \<open>psi\<close>, which alternates between the rows; its boundary rows and columns mirror the
  interior periodically, and its fast speed is 1 everywhere.
\<close>

definition unit_grid :: "nat \<Rightarrow> nat \<Rightarrow> real list list \<Rightarrow> Grid" where
  "unit_grid n m rows = \<lparr>nx = n, ny = m, dx = 1, dy = 1, x0 = 0, y0 = 0, data = rows\<rparr>"

definition flow_alt :: FlowField where
  "flow_alt =
     \<lparr>rho = unit_grid 4 3 (replicate 4 (replicate 3 1)),
      u = unit_grid 4 3 (replicate 4 (replicate 3 0)),
      v = unit_grid 4 3 (replicate 4 (replicate 3 0)),
      p = unit_grid 4 3 (replicate 4 (replicate 3 (3 / 5))),
      e = unit_grid 4 3 (replicate 4 (replicate 3 (9 / 10))),
      bx = unit_grid 4 3 (replicate 4 (replicate 3 0)),
      by' = unit_grid 4 3 (replicate 4 (replicate 3 0)),
      psi = unit_grid 4 3 [[1, 1, 1], [0, 0, 0], [1, 1, 1], [0, 0, 0]]\<rparr>"

text \<open>
  The value a call of \<open>solve_MHD\<close> yields to its caller. The function is declared
  \<open>void\<close> in solver.hpp and has no \<open>return\<close> statement, so there is none.
\<close>

definition solve_MHD_return :: "FlowField \<Rightarrow> real \<Rightarrow> real \<Rightarrow> real option" where
  "solve_MHD_return flow dt nu = None"

text \<open>
  The timestep bound in the words of the specification: the minimum over the interior cells
  of \<open>min (dx / (|u| + c\<^sub>f)) (dy / (|v| + c\<^sub>f))\<close> with the fast speed written out and
  \<open>gamma = 5/3\<close>, and the GLM bound \<open>min dx dy / c\<^sub>h\<close> with \<open>c\<^sub>h = 0.8\<close>.
\<close>

definition cell_candidate :: "FlowField \<Rightarrow> nat \<Rightarrow> nat \<Rightarrow> real" where
  "cell_candidate flow i j =
     (let c_f = sqrt (5 / 3 * data (p flow) ! i ! j / data (rho flow) ! i ! j
                     + ((data (bx flow) ! i ! j)\<^sup>2 + (data (by' flow) ! i ! j)\<^sup>2)
                       / data (rho flow) ! i ! j)
      in min (dx (rho flow) / (\<bar>data (u flow) ! i ! j\<bar> + c_f))
             (dy (rho flow) / (\<bar>data (v flow) ! i ! j\<bar> + c_f)))"

definition physical_min :: "FlowField \<Rightarrow> real" where
  "physical_min flow =
     Min ((\<lambda>(i, j). cell_candidate flow i j) `
          ({1..<nx (rho flow) - 1} \<times> {1..<ny (rho flow) - 1}))"

definition glm_bound :: "FlowField \<Rightarrow> real" where
  "glm_bound flow = min (dx (rho flow)) (dy (rho flow)) / 0.8"

text \<open>
  The periodicity property of one data array: row \<open>0\<close> equals row \<open>n - 2\<close> and row
  \<open>n - 1\<close> equals row \<open>1\<close> in every column, and symmetrically for the columns in every
  row. The transported fields are the seven fields the fluxes move.
\<close>

definition periodic_array :: "nat \<Rightarrow> nat \<Rightarrow> real list list \<Rightarrow> bool" where
  "periodic_array n m a =
     (list_all (\<lambda>j. a ! 0 ! j = a ! (n - 2) ! j \<and> a ! (n - 1) ! j = a ! 1 ! j) [0..<m] \<and>
      list_all (\<lambda>i. a ! i ! 0 = a ! i ! (m - 2) \<and> a ! i ! (m - 1) = a ! i ! 1) [0..<n])"

definition transported :: "FlowField \<Rightarrow> Grid list" where
  "transported flow = [rho flow, u flow, v flow, p flow, bx flow, by' flow, psi flow]"

definition periodic_flow :: "FlowField \<Rightarrow> bool" where
  "periodic_flow flow =
     list_all (\<lambda>g. periodic_array (nx (rho flow)) (ny (rho flow)) (data g)) (transported flow)"

text \<open>
  The \<open>psi\<close> of the specification's step 11: the source term applied to the flux-updated
  \<open>psi\<close> after its periodic wrap, with the divergence taken from the new \<open>Bx\<close>, \<open>By\<close>
  after their periodic wrap, \<open>c\<^sub>h = 0.8\<close> and \<open>c\<^sub>r = 0.01\<close>.
\<close>

definition psi_as_specified :: "FlowField \<Rightarrow> real \<Rightarrow> nat \<Rightarrow> nat \<Rightarrow> real" where
  "psi_as_specified flow dt i j =
     (let n = nx (rho flow);
          m = ny (rho flow);
          psi_preliminary = periodic_bc n m (psi_new flow dt);
          bx_wrapped = periodic_bc n m (bx_new flow dt);
          by_wrapped = periodic_bc n m (by_new flow dt);
          divB_new = (bx_wrapped ! ((i + 1) mod n) ! j - bx_wrapped ! ((i + n - 1) mod n) ! j)
                       / (2 * dx (rho flow))
                   + (by_wrapped ! i ! ((j + 1) mod m) - by_wrapped ! i ! ((j + m - 1) mod m))
                       / (2 * dy (rho flow))
      in psi_preliminary ! i ! j - dt * 0.8\<^sup>2 * divB_new - dt * 0.01 * psi_preliminary ! i ! j)"


text \<open>
  \<open>flow_cold\<close> is such a state on a 3 by 3 grid with density 1, no magnetic field and the
  positive pressure \<open>6e-13\<close>, whose thermal energy \<open>9e-13\<close> lies below the floor.
\<close>

definition flow_cold :: FlowField where
  "flow_cold =
     \<lparr>rho = unit_grid 3 3 (replicate 3 (replicate 3 1)),
      u = unit_grid 3 3 (replicate 3 (replicate 3 0)),
      v = unit_grid 3 3 (replicate 3 (replicate 3 0)),
      p = unit_grid 3 3 (replicate 3 (replicate 3 (6 / 10 ^ 13))),
      e = unit_grid 3 3 (replicate 3 (replicate 3 (9 / 10 ^ 13))),
      bx = unit_grid 3 3 (replicate 3 (replicate 3 0)),
      by' = unit_grid 3 3 (replicate 3 (replicate 3 0)),
      psi = unit_grid 3 3 (replicate 3 (replicate 3 0))\<rparr>"




text \<open>
  \<open>flow_ramp\<close> is a periodic 5 by 3 state with density 1, pressure 0.6, no magnetic field
  and an x velocity that differs between the rows: 0.3, 0.1, 0.2 on the interior rows. The
  limited slope of \<open>u\<close> in row \<open>nx - 2\<close> is 0.1. \<open>flow_wave\<close> is a periodic 4 by 3 state
  of the same kind with interior velocities 0.1 and 0.3, where every limited slope is zero.
\<close>

definition flow_ramp :: FlowField where
  "flow_ramp =
     \<lparr>rho = unit_grid 5 3 (replicate 5 (replicate 3 1)),
      u = unit_grid 5 3 [[1 / 5, 1 / 5, 1 / 5], [3 / 10, 3 / 10, 3 / 10], [1 / 10, 1 / 10, 1 / 10],
                         [1 / 5, 1 / 5, 1 / 5], [3 / 10, 3 / 10, 3 / 10]],
      v = unit_grid 5 3 (replicate 5 (replicate 3 0)),
      p = unit_grid 5 3 (replicate 5 (replicate 3 (3 / 5))),
      e = unit_grid 5 3 [[23 / 25, 23 / 25, 23 / 25], [189 / 200, 189 / 200, 189 / 200],
                         [181 / 200, 181 / 200, 181 / 200], [23 / 25, 23 / 25, 23 / 25],
                         [189 / 200, 189 / 200, 189 / 200]],
      bx = unit_grid 5 3 (replicate 5 (replicate 3 0)),
      by' = unit_grid 5 3 (replicate 5 (replicate 3 0)),
      psi = unit_grid 5 3 (replicate 5 (replicate 3 0))\<rparr>"

definition flow_wave :: FlowField where
  "flow_wave =
     \<lparr>rho = unit_grid 4 3 (replicate 4 (replicate 3 1)),
      u = unit_grid 4 3 [[3 / 10, 3 / 10, 3 / 10], [1 / 10, 1 / 10, 1 / 10],
                         [3 / 10, 3 / 10, 3 / 10], [1 / 10, 1 / 10, 1 / 10]],
      v = unit_grid 4 3 (replicate 4 (replicate 3 0)),
      p = unit_grid 4 3 (replicate 4 (replicate 3 (3 / 5))),
      e = unit_grid 4 3 [[189 / 200, 189 / 200, 189 / 200], [181 / 200, 181 / 200, 181 / 200],
                         [189 / 200, 189 / 200, 189 / 200], [181 / 200, 181 / 200, 181 / 200]],
      bx = unit_grid 4 3 (replicate 4 (replicate 3 0)),
      by' = unit_grid 4 3 (replicate 4 (replicate 3 0)),
      psi = unit_grid 4 3 (replicate 4 (replicate 3 0))\<rparr>"

text \<open>
  A physical state: a valid state with positive spacings on every grid and positive density
  and pressure in every cell, boundary cells included, as the specification requires of its
  inputs. On such a state no division of the step has a zero denominator and no square root
  a negative argument (see the section on physical states), so the exact-real model computes
  what the code computes. Where the code would produce an infinity or a NaN, HOL's total
  division and square root say nothing about it, and the properties of the step below do
  not speak about such states.
\<close>

definition positive_array :: "real list list \<Rightarrow> bool" where
  "positive_array a = list_all (list_all (\<lambda>x. 0 < x)) a"

definition physical_flow :: "FlowField \<Rightarrow> bool" where
  "physical_flow flow =
     (valid_flow flow \<and>
      list_all (\<lambda>g. 0 < dx g \<and> 0 < dy g) (all_grids flow) \<and>
      positive_array (data (rho flow)) \<and> positive_array (data (p flow)))"

text \<open>
  \<open>flow_spot\<close> is a 3 by 3 state at rest with density 1 whose \<open>Bx\<close> is 1 in the centre
  cell and 0 elsewhere; the pressure is chosen so that the fast speed is 2 in every cell.
\<close>

definition flow_spot :: FlowField where
  "flow_spot =
     \<lparr>rho = unit_grid 3 3 (replicate 3 (replicate 3 1)),
      u = unit_grid 3 3 (replicate 3 (replicate 3 0)),
      v = unit_grid 3 3 (replicate 3 (replicate 3 0)),
      p = unit_grid 3 3 [[12 / 5, 12 / 5, 12 / 5], [12 / 5, 9 / 5, 12 / 5], [12 / 5, 12 / 5, 12 / 5]],
      e = unit_grid 3 3 [[18 / 5, 18 / 5, 18 / 5], [18 / 5, 16 / 5, 18 / 5], [18 / 5, 18 / 5, 18 / 5]],
      bx = unit_grid 3 3 [[0, 0, 0], [0, 1, 0], [0, 0, 0]],
      by' = unit_grid 3 3 (replicate 3 (replicate 3 0)),
      psi = unit_grid 3 3 (replicate 3 (replicate 3 0))\<rparr>"

text \<open>
  The magnetic diffusion in the words of the claim: after the step, \<open>Bx\<close> and \<open>By\<close> of
  an interior cell are their flux update plus \<open>dt * 0.001 * Laplacian\<close> of the old field,
  with the \<open>dt\<close> the caller passed and the five-point Laplacian written out.
\<close>

definition diffusion_as_claimed :: "FlowField \<Rightarrow> real \<Rightarrow> real \<Rightarrow> nat \<Rightarrow> nat \<Rightarrow> bool" where
  "diffusion_as_claimed flow dt nu i j =
     (let new = solve_MHD flow dt nu;
          lap = (\<lambda>g. (data g ! (i + 1) ! j - 2 * data g ! i ! j + data g ! (i - 1) ! j)
                       / (dx g * dx g)
                     + (data g ! i ! (j + 1) - 2 * data g ! i ! j + data g ! i ! (j - 1))
                       / (dy g * dy g))
      in data (bx new) ! i ! j =
           fv_update flow (clamped_dt flow dt) F_Bx (data (bx flow) ! i ! j) i j
           + dt * 0.001 * lap (bx flow) \<and>
         data (by' new) ! i ! j =
           fv_update flow (clamped_dt flow dt) F_By (data (by' flow) ! i ! j) i j
           + dt * 0.001 * lap (by' flow))"

section \<open>Arrays, loops and boundary conditions\<close>

lemma has_dims_iff: "has_dims a n m \<longleftrightarrow> length a = n \<and> (\<forall>i<n. length (a ! i) = m)"
  by (auto simp: has_dims_def list_all_length)

lemma has_dimsD: "has_dims a n m \<Longrightarrow> length a = n" "has_dims a n m \<Longrightarrow> i < n \<Longrightarrow> length (a ! i) = m"
  by (auto simp: has_dims_iff)

lemma set2_length [simp]: "length (set2 a i j x) = length a"
  by (simp add: set2_def)

lemma set2_row_length [simp]: "length (set2 a i j x ! k) = length (a ! k)"
  by (cases "i < length a"; cases "k = i") (simp_all add: set2_def list_update_beyond)

lemma set2_nth:
  "k < length a \<Longrightarrow> l < length (a ! k) \<Longrightarrow>
   set2 a i j x ! k ! l = (if k = i \<and> l = j then x else a ! k ! l)"
  by (cases "k = i"; cases "l = j") (simp_all add: set2_def)

lemma set2_has_dims [simp]: "has_dims (set2 a i j x) n m = has_dims a n m"
  by (simp add: has_dims_iff)

lemma fold_set2_length [simp]: "length (fold (\<lambda>j b. set2 b i j (f j)) js a) = length a"
  by (induction js arbitrary: a) simp_all

lemma fold_set2_row_length [simp]: "length (fold (\<lambda>j b. set2 b i j (f j)) js a ! k) = length (a ! k)"
  by (induction js arbitrary: a) simp_all

lemma fold_set2_nth:
  "k < length a \<Longrightarrow> l < length (a ! k) \<Longrightarrow>
   fold (\<lambda>j b. set2 b i j (f j)) js a ! k ! l = (if k = i \<and> l \<in> set js then f l else a ! k ! l)"
proof (induction js arbitrary: a)
  case Nil
  then show ?case by simp
next
  case (Cons j js)
  have "fold (\<lambda>j b. set2 b i j (f j)) (j # js) a ! k ! l =
        fold (\<lambda>j b. set2 b i j (f j)) js (set2 a i j (f j)) ! k ! l"
    by simp
  also have "\<dots> = (if k = i \<and> l \<in> set js then f l else set2 a i j (f j) ! k ! l)"
    using Cons.prems by (intro Cons.IH) simp_all
  also have "\<dots> = (if k = i \<and> l \<in> set (j # js) then f l else a ! k ! l)"
    using Cons.prems by (auto simp: set2_nth)
  finally show ?case .
qed

lemma for_cells_length [simp]: "length (for_cells is js f a) = length a"
  unfolding for_cells_def by (induction "is" arbitrary: a) simp_all

lemma for_cells_row_length [simp]: "length (for_cells is js f a ! k) = length (a ! k)"
  unfolding for_cells_def by (induction "is" arbitrary: a) simp_all

lemma for_cells_nth:
  "k < length a \<Longrightarrow> l < length (a ! k) \<Longrightarrow>
   for_cells is js f a ! k ! l = (if k \<in> set is \<and> l \<in> set js then f k l else a ! k ! l)"
  unfolding for_cells_def
proof (induction "is" arbitrary: a)
  case Nil
  then show ?case by simp
next
  case (Cons i "is")
  let ?b = "fold (\<lambda>j b. set2 b i j (f i j)) js a"
  have "fold (\<lambda>i. fold (\<lambda>j b. set2 b i j (f i j)) js) (i # is) a ! k ! l =
        fold (\<lambda>i. fold (\<lambda>j b. set2 b i j (f i j)) js) is ?b ! k ! l"
    by simp
  also have "\<dots> = (if k \<in> set is \<and> l \<in> set js then f k l else ?b ! k ! l)"
    using Cons.prems by (intro Cons.IH) simp_all
  also have "\<dots> = (if k \<in> set (i # is) \<and> l \<in> set js then f k l else a ! k ! l)"
    using Cons.prems by (auto simp: fold_set2_nth)
  finally show ?case .
qed

lemma for_cells_has_dims [simp]: "has_dims (for_cells is js f a) n m = has_dims a n m"
  by (simp add: has_dims_iff)

lemma zero_array_has_dims [simp]: "has_dims (zero_array n m) n m"
  by (simp add: has_dims_iff zero_array_def)

lemma zero_array_nth [simp]: "i < n \<Longrightarrow> j < m \<Longrightarrow> zero_array n m ! i ! j = 0"
  by (simp add: zero_array_def)


lemma bc_x_step_has_dims [simp]: "has_dims (bc_x_step n j a) n' m = has_dims a n' m"
  by (simp add: bc_x_step_def Let_def)

lemma bc_y_step_has_dims [simp]: "has_dims (bc_y_step m i a) n m' = has_dims a n m'"
  by (simp add: bc_y_step_def Let_def)

lemma bc_x_step_nth:
  assumes "3 \<le> n" "has_dims a n m" "k < n" "l < m"
  shows "bc_x_step n j a ! k ! l = (if l = j then a ! wrap n k ! l else a ! k ! l)"
proof -
  have src: "(n + 0 - 2) mod n = n - 2" "(n - 1 + 2) mod n = 1"
    using assms(1) by (simp_all add: mod_if)
  have len: "length a = n" "\<And>i. i < n \<Longrightarrow> length (a ! i) = m"
    using assms(2) by (auto simp: has_dims_iff)
  show ?thesis
    using assms len unfolding bc_x_step_def Let_def src
    by (auto simp: set2_nth wrap_def)
qed

lemma bc_y_step_nth:
  assumes "3 \<le> m" "has_dims a n m" "k < n" "l < m"
  shows "bc_y_step m i a ! k ! l = (if k = i then a ! k ! wrap m l else a ! k ! l)"
proof -
  have src: "(m + 0 - 2) mod m = m - 2" "(m - 1 + 2) mod m = 1"
    using assms(1) by (simp_all add: mod_if)
  have len: "length a = n" "\<And>i. i < n \<Longrightarrow> length (a ! i) = m"
    using assms(2) by (auto simp: has_dims_iff)
  show ?thesis
    using assms len unfolding bc_y_step_def Let_def src
    by (auto simp: set2_nth wrap_def)
qed

lemma fold_bc_x_has_dims [simp]: "has_dims (fold (bc_x_step n) js a) n' m = has_dims a n' m"
  by (induction js arbitrary: a) simp_all

lemma fold_bc_y_has_dims [simp]: "has_dims (fold (bc_y_step m) is a) n m' = has_dims a n m'"
  by (induction "is" arbitrary: a) simp_all

lemma fold_bc_x_nth:
  "3 \<le> n \<Longrightarrow> has_dims a n m \<Longrightarrow> k < n \<Longrightarrow> l < m \<Longrightarrow> distinct js \<Longrightarrow>
   fold (bc_x_step n) js a ! k ! l = (if l \<in> set js then a ! wrap n k ! l else a ! k ! l)"
proof (induction js arbitrary: a)
  case Nil
  then show ?case by simp
next
  case (Cons j js)
  have w: "wrap n k < n" using Cons.prems(1,3) by (simp add: wrap_def)
  show ?case
    using Cons.prems w by (simp add: Cons.IH bc_x_step_nth)
qed

lemma fold_bc_y_nth:
  "3 \<le> m \<Longrightarrow> has_dims a n m \<Longrightarrow> k < n \<Longrightarrow> l < m \<Longrightarrow> distinct is \<Longrightarrow>
   fold (bc_y_step m) is a ! k ! l = (if k \<in> set is then a ! k ! wrap m l else a ! k ! l)"
proof (induction "is" arbitrary: a)
  case Nil
  then show ?case by simp
next
  case (Cons i "is")
  have w: "wrap m l < m" using Cons.prems(1,4) by (simp add: wrap_def)
  show ?case
    using Cons.prems w by (simp add: Cons.IH bc_y_step_nth)
qed

lemma periodic_bc_has_dims [simp]: "has_dims (periodic_bc n m a) n m = has_dims a n m"
  by (simp add: periodic_bc_def)

lemma periodic_bc_nth:
  assumes "3 \<le> n" "3 \<le> m" "has_dims a n m" "k < n" "l < m"
  shows "periodic_bc n m a ! k ! l = a ! wrap n k ! wrap m l"
proof -
  have w: "wrap m l < m" using assms by (simp add: wrap_def)
  show ?thesis
    using assms w by (simp add: periodic_bc_def fold_bc_y_nth fold_bc_x_nth)
qed

section \<open>Every cell of the new state\<close>

lemma valid_flowD:
  assumes "valid_flow flow"
  shows "3 \<le> nx (rho flow)" "3 \<le> ny (rho flow)"
    "has_dims (data (rho flow)) (nx (rho flow)) (ny (rho flow))"
    "has_dims (data (u flow)) (nx (rho flow)) (ny (rho flow))"
    "has_dims (data (v flow)) (nx (rho flow)) (ny (rho flow))"
    "has_dims (data (p flow)) (nx (rho flow)) (ny (rho flow))"
    "has_dims (data (e flow)) (nx (rho flow)) (ny (rho flow))"
    "has_dims (data (bx flow)) (nx (rho flow)) (ny (rho flow))"
    "has_dims (data (by' flow)) (nx (rho flow)) (ny (rho flow))"
    "has_dims (data (psi flow)) (nx (rho flow)) (ny (rho flow))"
  using assms by (simp_all add: valid_flow_def all_grids_def)

lemma has_dims_nth:
  "has_dims a n m \<Longrightarrow> k < n \<Longrightarrow> l < m \<Longrightarrow> k < length a \<and> l < length (a ! k)"
  by (simp add: has_dims_iff)

lemma for_cells_nth_dims:
  "has_dims a n m \<Longrightarrow> k < n \<Longrightarrow> l < m \<Longrightarrow>
   for_cells is js f a ! k ! l = (if k \<in> set is \<and> l \<in> set js then f k l else a ! k ! l)"
  by (rule for_cells_nth) (simp_all add: has_dims_iff)

lemma in_interior [simp]: "i \<in> set (interior n) \<longleftrightarrow> 1 \<le> i \<and> i + 1 < n"
  by (auto simp: interior_def)

lemma wrap_interior: "3 \<le> n \<Longrightarrow> k < n \<Longrightarrow> 1 \<le> wrap n k \<and> wrap n k + 1 < n"
  by (auto simp: wrap_def)

lemma wrap_less: "3 \<le> n \<Longrightarrow> k < n \<Longrightarrow> wrap n k < n"
  by (auto simp: wrap_def)

lemma wrap_id: "1 \<le> k \<Longrightarrow> k + 1 < n \<Longrightarrow> wrap n k = k"
  by (auto simp: wrap_def)

lemma slopes_x_nth:
  "valid_flow flow \<Longrightarrow> k < nx (rho flow) \<Longrightarrow> l < ny (rho flow) \<Longrightarrow>
   slopes_x flow g ! k ! l = (if 1 \<le> k \<and> k + 1 < nx (rho flow) then slope_x g k l else 0)"
  by (auto simp: slopes_x_def Let_def for_cells_nth_dims [OF zero_array_has_dims])

lemma slopes_y_nth:
  "valid_flow flow \<Longrightarrow> k < nx (rho flow) \<Longrightarrow> l < ny (rho flow) \<Longrightarrow>
   slopes_y flow g ! k ! l = (if 1 \<le> l \<and> l + 1 < ny (rho flow) then slope_y g k l else 0)"
  by (auto simp: slopes_y_def Let_def for_cells_nth_dims [OF zero_array_has_dims])

lemma momx_init_nth:
  "valid_flow flow \<Longrightarrow> k < nx (rho flow) \<Longrightarrow> l < ny (rho flow) \<Longrightarrow>
   momx_init flow ! k ! l = data (rho flow) ! k ! l * data (u flow) ! k ! l"
  by (simp add: momx_init_def Let_def for_cells_nth_dims [OF zero_array_has_dims])

lemma momy_init_nth:
  "valid_flow flow \<Longrightarrow> k < nx (rho flow) \<Longrightarrow> l < ny (rho flow) \<Longrightarrow>
   momy_init flow ! k ! l = data (rho flow) ! k ! l * data (v flow) ! k ! l"
  by (simp add: momy_init_def Let_def for_cells_nth_dims [OF zero_array_has_dims])

lemma new_has_dims:
  assumes "valid_flow flow"
  shows "has_dims (rho_new flow dt) (nx (rho flow)) (ny (rho flow))"
    "has_dims (momx_new flow dt nu) (nx (rho flow)) (ny (rho flow))"
    "has_dims (momy_new flow dt nu) (nx (rho flow)) (ny (rho flow))"
    "has_dims (e_new flow dt) (nx (rho flow)) (ny (rho flow))"
    "has_dims (bx_new flow dt) (nx (rho flow)) (ny (rho flow))"
    "has_dims (by_new flow dt) (nx (rho flow)) (ny (rho flow))"
    "has_dims (psi_new flow dt) (nx (rho flow)) (ny (rho flow))"
  using valid_flowD [OF assms]
  by (simp_all add: rho_new_def momx_new_def momy_new_def e_new_def bx_new_def by_new_def
      psi_new_def momx_init_def momy_init_def Let_def)

lemma new_nth:
  assumes "valid_flow flow" "k < nx (rho flow)" "l < ny (rho flow)"
  shows
    "rho_new flow dt ! k ! l =
       (if (1 \<le> k \<and> k + 1 < nx (rho flow)) \<and> 1 \<le> l \<and> l + 1 < ny (rho flow)
        then rho_cell flow dt k l else data (rho flow) ! k ! l)"
    "momx_new flow dt nu ! k ! l =
       (if (1 \<le> k \<and> k + 1 < nx (rho flow)) \<and> 1 \<le> l \<and> l + 1 < ny (rho flow)
        then momx_cell flow dt nu k l else data (rho flow) ! k ! l * data (u flow) ! k ! l)"
    "momy_new flow dt nu ! k ! l =
       (if (1 \<le> k \<and> k + 1 < nx (rho flow)) \<and> 1 \<le> l \<and> l + 1 < ny (rho flow)
        then momy_cell flow dt nu k l else data (rho flow) ! k ! l * data (v flow) ! k ! l)"
    "e_new flow dt ! k ! l =
       (if (1 \<le> k \<and> k + 1 < nx (rho flow)) \<and> 1 \<le> l \<and> l + 1 < ny (rho flow)
        then e_cell flow dt k l else data (e flow) ! k ! l)"
    "bx_new flow dt ! k ! l =
       (if (1 \<le> k \<and> k + 1 < nx (rho flow)) \<and> 1 \<le> l \<and> l + 1 < ny (rho flow)
        then bx_cell flow dt k l else data (bx flow) ! k ! l)"
    "by_new flow dt ! k ! l =
       (if (1 \<le> k \<and> k + 1 < nx (rho flow)) \<and> 1 \<le> l \<and> l + 1 < ny (rho flow)
        then by_cell flow dt k l else data (by' flow) ! k ! l)"
    "psi_new flow dt ! k ! l =
       (if (1 \<le> k \<and> k + 1 < nx (rho flow)) \<and> 1 \<le> l \<and> l + 1 < ny (rho flow)
        then psi_cell flow dt k l else data (psi flow) ! k ! l)"
proof -
  note d = valid_flowD [OF assms(1)]
  have mx: "has_dims (momx_init flow) (nx (rho flow)) (ny (rho flow))"
    and my: "has_dims (momy_init flow) (nx (rho flow)) (ny (rho flow))"
    by (simp_all add: momx_init_def momy_init_def Let_def)
  show "rho_new flow dt ! k ! l =
       (if (1 \<le> k \<and> k + 1 < nx (rho flow)) \<and> 1 \<le> l \<and> l + 1 < ny (rho flow)
        then rho_cell flow dt k l else data (rho flow) ! k ! l)"
    using assms by (simp add: rho_new_def for_cells_nth_dims [OF d(3)])
  show "momx_new flow dt nu ! k ! l =
       (if (1 \<le> k \<and> k + 1 < nx (rho flow)) \<and> 1 \<le> l \<and> l + 1 < ny (rho flow)
        then momx_cell flow dt nu k l else data (rho flow) ! k ! l * data (u flow) ! k ! l)"
    using assms by (simp add: momx_new_def for_cells_nth_dims [OF mx] momx_init_nth)
  show "momy_new flow dt nu ! k ! l =
       (if (1 \<le> k \<and> k + 1 < nx (rho flow)) \<and> 1 \<le> l \<and> l + 1 < ny (rho flow)
        then momy_cell flow dt nu k l else data (rho flow) ! k ! l * data (v flow) ! k ! l)"
    using assms by (simp add: momy_new_def for_cells_nth_dims [OF my] momy_init_nth)
  show "e_new flow dt ! k ! l =
       (if (1 \<le> k \<and> k + 1 < nx (rho flow)) \<and> 1 \<le> l \<and> l + 1 < ny (rho flow)
        then e_cell flow dt k l else data (e flow) ! k ! l)"
    using assms by (simp add: e_new_def for_cells_nth_dims [OF d(7)])
  show "bx_new flow dt ! k ! l =
       (if (1 \<le> k \<and> k + 1 < nx (rho flow)) \<and> 1 \<le> l \<and> l + 1 < ny (rho flow)
        then bx_cell flow dt k l else data (bx flow) ! k ! l)"
    using assms by (simp add: bx_new_def for_cells_nth_dims [OF d(8)])
  show "by_new flow dt ! k ! l =
       (if (1 \<le> k \<and> k + 1 < nx (rho flow)) \<and> 1 \<le> l \<and> l + 1 < ny (rho flow)
        then by_cell flow dt k l else data (by' flow) ! k ! l)"
    using assms by (simp add: by_new_def for_cells_nth_dims [OF d(9)])
  show "psi_new flow dt ! k ! l =
       (if (1 \<le> k \<and> k + 1 < nx (rho flow)) \<and> 1 \<le> l \<and> l + 1 < ny (rho flow)
        then psi_cell flow dt k l else data (psi flow) ! k ! l)"
    using assms by (simp add: psi_new_def for_cells_nth_dims [OF d(10)])
qed

text \<open>The committed interior value followed by the boundary copy.\<close>

lemma bc_for_cells_nth:
  assumes "3 \<le> n" "3 \<le> m" "has_dims a n m" "k < n" "l < m"
  shows "periodic_bc n m (for_cells (interior n) (interior m) f a) ! k ! l
         = f (wrap n k) (wrap m l)"
proof -
  have wk: "wrap n k < n" "wrap n k \<in> set (interior n)"
    using wrap_interior [OF assms(1,4)] wrap_less [OF assms(1,4)] by simp_all
  have wl: "wrap m l < m" "wrap m l \<in> set (interior m)"
    using wrap_interior [OF assms(2,5)] wrap_less [OF assms(2,5)] by simp_all
  have dims: "has_dims (for_cells (interior n) (interior m) f a) n m"
    using assms(3) by simp
  have "periodic_bc n m (for_cells (interior n) (interior m) f a) ! k ! l
        = for_cells (interior n) (interior m) f a ! wrap n k ! wrap m l"
    by (rule periodic_bc_nth [OF assms(1,2) dims assms(4,5)])
  also have "\<dots> = f (wrap n k) (wrap m l)"
    unfolding for_cells_nth_dims [OF assms(3) wk(1) wl(1)] using wk(2) wl(2) by simp
  finally show ?thesis .
qed


lemma update_level_data:
  "data (rho (update_level flow dt0 nu)) =
     periodic_bc (nx (rho flow)) (ny (rho flow))
       (for_cells (interior (nx (rho flow))) (interior (ny (rho flow)))
          (\<lambda>i j. rho_new flow (clamped_dt flow dt0) ! i ! j) (data (rho flow)))"
  "data (u (update_level flow dt0 nu)) =
     periodic_bc (nx (rho flow)) (ny (rho flow))
       (for_cells (interior (nx (rho flow))) (interior (ny (rho flow)))
          (u_prim flow (clamped_dt flow dt0) nu) (data (u flow)))"
  "data (v (update_level flow dt0 nu)) =
     periodic_bc (nx (rho flow)) (ny (rho flow))
       (for_cells (interior (nx (rho flow))) (interior (ny (rho flow)))
          (v_prim flow (clamped_dt flow dt0) nu) (data (v flow)))"
  "data (p (update_level flow dt0 nu)) =
     periodic_bc (nx (rho flow)) (ny (rho flow))
       (for_cells (interior (nx (rho flow))) (interior (ny (rho flow)))
          (p_prim flow (clamped_dt flow dt0) nu) (data (p flow)))"
  "data (e (update_level flow dt0 nu)) =
     periodic_bc (nx (rho flow)) (ny (rho flow))
       (for_cells (interior (nx (rho flow))) (interior (ny (rho flow)))
          (\<lambda>i j. e_new flow (clamped_dt flow dt0) ! i ! j) (data (e flow)))"
  "data (bx (update_level flow dt0 nu)) =
     periodic_bc (nx (rho flow)) (ny (rho flow))
       (for_cells (interior (nx (rho flow))) (interior (ny (rho flow)))
          (\<lambda>i j. bx_new flow (clamped_dt flow dt0) ! i ! j) (data (bx flow)))"
  "data (by' (update_level flow dt0 nu)) =
     periodic_bc (nx (rho flow)) (ny (rho flow))
       (for_cells (interior (nx (rho flow))) (interior (ny (rho flow)))
          (\<lambda>i j. by_new flow (clamped_dt flow dt0) ! i ! j) (data (by' flow)))"
  "data (psi (update_level flow dt0 nu)) =
     for_cells [0..<nx (rho flow)] [0..<ny (rho flow)] (glm_cell flow (clamped_dt flow dt0))
       (periodic_bc (nx (rho flow)) (ny (rho flow)) (data (psi flow)))"
  by (simp_all add: update_level_def Let_def)


text \<open>Every cell of the new state as a function of the old state.\<close>

lemma update_level_nth:
  assumes "valid_flow flow" "k < nx (rho flow)" "l < ny (rho flow)"
  shows "data (rho (update_level flow dt0 nu)) ! k ! l =
           rho_cell flow (clamped_dt flow dt0) (wrap (nx (rho flow)) k) (wrap (ny (rho flow)) l)"
    "data (u (update_level flow dt0 nu)) ! k ! l =
           u_prim flow (clamped_dt flow dt0) nu (wrap (nx (rho flow)) k) (wrap (ny (rho flow)) l)"
    "data (v (update_level flow dt0 nu)) ! k ! l =
           v_prim flow (clamped_dt flow dt0) nu (wrap (nx (rho flow)) k) (wrap (ny (rho flow)) l)"
    "data (p (update_level flow dt0 nu)) ! k ! l =
           p_prim flow (clamped_dt flow dt0) nu (wrap (nx (rho flow)) k) (wrap (ny (rho flow)) l)"
    "data (e (update_level flow dt0 nu)) ! k ! l =
           e_cell flow (clamped_dt flow dt0) (wrap (nx (rho flow)) k) (wrap (ny (rho flow)) l)"
    "data (bx (update_level flow dt0 nu)) ! k ! l =
           bx_cell flow (clamped_dt flow dt0) (wrap (nx (rho flow)) k) (wrap (ny (rho flow)) l)"
    "data (by' (update_level flow dt0 nu)) ! k ! l =
           by_cell flow (clamped_dt flow dt0) (wrap (nx (rho flow)) k) (wrap (ny (rho flow)) l)"
    "data (psi (update_level flow dt0 nu)) ! k ! l = glm_cell flow (clamped_dt flow dt0) k l"
proof -
  note d = valid_flowD [OF assms(1)]
  let ?k = "wrap (nx (rho flow)) k" and ?l = "wrap (ny (rho flow)) l"
  have w: "?k < nx (rho flow)" "?l < ny (rho flow)"
    "1 \<le> ?k" "?k + 1 < nx (rho flow)" "1 \<le> ?l" "?l + 1 < ny (rho flow)"
    using assms(2,3) d(1,2) wrap_interior wrap_less by simp_all
  note n = new_nth [OF assms(1) w(1,2)]
  show "data (rho (update_level flow dt0 nu)) ! k ! l = rho_cell flow (clamped_dt flow dt0) ?k ?l"
    unfolding update_level_data(1) bc_for_cells_nth [OF d(1,2,3) assms(2,3)] n
    using w by simp
  show "data (u (update_level flow dt0 nu)) ! k ! l = u_prim flow (clamped_dt flow dt0) nu ?k ?l"
    unfolding update_level_data(2) bc_for_cells_nth [OF d(1,2,4) assms(2,3)] ..
  show "data (v (update_level flow dt0 nu)) ! k ! l = v_prim flow (clamped_dt flow dt0) nu ?k ?l"
    unfolding update_level_data(3) bc_for_cells_nth [OF d(1,2,5) assms(2,3)] ..
  show "data (p (update_level flow dt0 nu)) ! k ! l = p_prim flow (clamped_dt flow dt0) nu ?k ?l"
    unfolding update_level_data(4) bc_for_cells_nth [OF d(1,2,6) assms(2,3)] ..
  show "data (e (update_level flow dt0 nu)) ! k ! l = e_cell flow (clamped_dt flow dt0) ?k ?l"
    unfolding update_level_data(5) bc_for_cells_nth [OF d(1,2,7) assms(2,3)] n
    using w by simp
  show "data (bx (update_level flow dt0 nu)) ! k ! l = bx_cell flow (clamped_dt flow dt0) ?k ?l"
    unfolding update_level_data(6) bc_for_cells_nth [OF d(1,2,8) assms(2,3)] n
    using w by simp
  show "data (by' (update_level flow dt0 nu)) ! k ! l = by_cell flow (clamped_dt flow dt0) ?k ?l"
    unfolding update_level_data(7) bc_for_cells_nth [OF d(1,2,9) assms(2,3)] n
    using w by simp
  have "has_dims (periodic_bc (nx (rho flow)) (ny (rho flow)) (data (psi flow)))
          (nx (rho flow)) (ny (rho flow))"
    using d(10) by simp
  from for_cells_nth_dims [OF this assms(2,3)] assms(2,3)
  show "data (psi (update_level flow dt0 nu)) ! k ! l = glm_cell flow (clamped_dt flow dt0) k l"
    unfolding update_level_data(8) by simp
qed

section \<open>Construction\<close>

lemma Grid_ctor_fails [simp]:
  "(\<exists>err. Grid_ctor n m a b c d = Inl err) \<longleftrightarrow> n < 3 \<or> m < 3"
  by (auto simp: Grid_ctor_def)

lemma Grid_ctor_ok:
  "3 \<le> n \<Longrightarrow> 3 \<le> m \<Longrightarrow>
   Grid_ctor n m a b c d =
     Inr \<lparr>nx = nat n, ny = nat m, dx = a, dy = b, x0 = c, y0 = d,
          data = replicate (nat n) (replicate (nat m) 0)\<rparr>"
  by (simp add: Grid_ctor_def)

lemma FlowField_ctor_fails:
  "(\<exists>err. FlowField_ctor n m a b c d = Inl err) \<longleftrightarrow> n < 3 \<or> m < 3"
proof (cases "3 \<le> n \<and> 3 \<le> m")
  case True
  then show ?thesis
    by (simp add: FlowField_ctor_def then_err_def Grid_ctor_ok)
next
  case False
  then have "n < 3 \<or> m < 3" by auto
  then obtain err where "Grid_ctor n m a b c d = Inl err"
    using Grid_ctor_fails by blast
  then show ?thesis
    using False by (auto simp: FlowField_ctor_def then_err_def)
qed

text \<open>
  C9. Constructing a \<open>Grid\<close> or a \<open>FlowField\<close> throws exactly when \<open>nx < 3\<close> or
  \<open>ny < 3\<close>; with both dimensions at least three the construction succeeds, and the data
  array of the grid, and of each of the eight grids of the flow field, has exactly \<open>nx\<close>
  rows of \<open>ny\<close> cells.
\<close>

theorem construction_fails_iff_below_3x3:
  "((\<exists>err. Grid_ctor n m a b c d = Inl err) \<longleftrightarrow> n < 3 \<or> m < 3) \<and>
   ((\<exists>err. FlowField_ctor n m a b c d = Inl err) \<longleftrightarrow> n < 3 \<or> m < 3) \<and>
   (3 \<le> n \<and> 3 \<le> m \<longrightarrow>
      (\<exists>g. Grid_ctor n m a b c d = Inr g \<and> nx g = nat n \<and> ny g = nat m \<and>
            has_dims (data g) (nat n) (nat m)) \<and>
      (\<exists>flow. FlowField_ctor n m a b c d = Inr flow \<and>
            (\<forall>g \<in> set (all_grids flow). nx g = nat n \<and> ny g = nat m \<and>
               has_dims (data g) (nat n) (nat m))))"
proof (intro conjI impI)
  show "(\<exists>err. Grid_ctor n m a b c d = Inl err) \<longleftrightarrow> n < 3 \<or> m < 3"
    by simp
  show "(\<exists>err. FlowField_ctor n m a b c d = Inl err) \<longleftrightarrow> n < 3 \<or> m < 3"
    by (rule FlowField_ctor_fails)
next
  assume big: "3 \<le> n \<and> 3 \<le> m"
  then show "\<exists>g. Grid_ctor n m a b c d = Inr g \<and> nx g = nat n \<and> ny g = nat m \<and>
      has_dims (data g) (nat n) (nat m)"
    by (simp add: Grid_ctor_ok has_dims_def list_all_iff)
  from big show "\<exists>flow. FlowField_ctor n m a b c d = Inr flow \<and>
      (\<forall>g \<in> set (all_grids flow). nx g = nat n \<and> ny g = nat m \<and>
         has_dims (data g) (nat n) (nat m))"
    by (simp add: FlowField_ctor_def then_err_def Grid_ctor_ok has_dims_def all_grids_def list_all_iff)
qed

theorem construction_fails_iff_below_3x3_witness:
  "(\<exists>g. Grid_ctor 3 4 1 1 0 0 = Inr g \<and> has_dims (data g) 3 4) \<and>
   (\<exists>err. Grid_ctor 2 4 1 1 0 0 = Inl err) \<and>
   (\<exists>err. FlowField_ctor 5 (- 1) 1 1 0 0 = Inl err)"
  using construction_fails_iff_below_3x3 [of 3 4 1 1 0 0]
        construction_fails_iff_below_3x3 [of 2 4 1 1 0 0]
        construction_fails_iff_below_3x3 [of 5 "- 1" 1 1 0 0]
  by auto

section \<open>The alternating test state\<close>

lemma flow_alt_valid: "valid_flow flow_alt"
  by (simp add: valid_flow_def all_grids_def flow_alt_def unit_grid_def has_dims_def list_all_iff)

lemma flow_alt_geometry [simp]:
  "nx (rho flow_alt) = 4" "ny (rho flow_alt) = 3" "dx (rho flow_alt) = 1" "dy (rho flow_alt) = 1"
  by (simp_all add: flow_alt_def unit_grid_def)

section \<open>The CFL reduction as a minimum\<close>

lemma Min_insert_min:
  "finite A \<Longrightarrow> Min (insert (min a b) A) = Min (insert (a::real) (insert b A))"
  by (cases "A = {}") (simp_all add: min.assoc)

lemma fold_min_list:
  "fold (\<lambda>x acc. min acc (g x)) xs (a::real) = Min (insert a (g ` set xs))"
proof (induction xs arbitrary: a)
  case Nil
  then show ?case by simp
next
  case (Cons x xs)
  show ?case by (simp add: Cons.IH Min_insert_min)
qed

lemma fold_product:
  "fold (\<lambda>i. fold (\<lambda>j. h (i, j)) js) is = fold h (List.product is js)"
  by (induction "is") (simp_all add: fold_map comp_def)

lemma fold_min_nested:
  "fold (\<lambda>i. fold (\<lambda>j acc. min acc (f i j)) js) is (a::real)
   = Min (insert a ((\<lambda>(i, j). f i j) ` (set is \<times> set js)))"
proof -
  have "fold (\<lambda>i. fold (\<lambda>j acc. min acc (f i j)) js) is a
        = fold (\<lambda>x acc. min acc ((\<lambda>(i, j). f i j) x)) (List.product is js) a"
    using fold_product [of "\<lambda>x acc. min acc ((\<lambda>(i, j). f i j) x)" js "is"] by simp
  then show ?thesis by (simp add: fold_min_list)
qed

lemma cell_dt_candidate: "cell_dt flow i j = cell_candidate flow i j"
  by (simp add: cell_dt_def cell_candidate_def compute_fast_speed_def gamma_gas_def Let_def
      power2_eq_square)

section \<open>The HLL flux\<close>

lemma fast_speed_nonneg:
  "0 < r \<Longrightarrow> 0 < q \<Longrightarrow> 0 \<le> compute_fast_speed r q b1 b2"
  by (simp add: compute_fast_speed_def gamma_gas_def Let_def)

text \<open>
  C7, as stated, fails in the HLL branch: between two states at rest that differ in
  \<open>psi\<close> only, the component-wise average of the \<open>psi\<close> flux is \<open>-1/2\<close>, and the
  function returns \<open>-8/25\<close>.
\<close>

theorem hll_psi_flux_counterexample:
  "\<not> hll_as_specified_x 1 0 0 (3 / 5) 0 0 0 1 0 0 (3 / 5) 0 0 1
       (compute_hll_flux_x 1 0 0 (3 / 5) 0 0 0 1 0 0 (3 / 5) 0 0 1)"
  by (simp add: hll_as_specified_x_def compute_hll_flux_x_def compute_fast_speed_def
      physical_flux_x_def hll_componentwise_def hll_average_def total_energy_def
      gamma_gas_def CH_def Let_def)

text \<open>
  C7, amended. For left and right states with positive density and pressure, with
  \<open>S\<^sub>L = min (v\<^sub>L - c\<^sub>f\<^sub>L) (v\<^sub>R - c\<^sub>f\<^sub>R)\<close> and \<open>S\<^sub>R = max (v\<^sub>L + c\<^sub>f\<^sub>L) (v\<^sub>R + c\<^sub>f\<^sub>R)\<close> for
  the velocity normal to the face, both flux functions return the left physical flux when
  \<open>S\<^sub>L > 0\<close>, the right physical flux when \<open>S\<^sub>R < 0\<close>, and otherwise the component-wise HLL
  average for mass, both momenta, energy and both magnetic components, while the \<open>psi\<close>
  component is \<open>c\<^sub>h\<^sup>2\<close> times the HLL average of the normal magnetic component taken with
  the jump of \<open>psi\<close>: the factor \<open>c\<^sub>h\<^sup>2\<close> multiplies the jump term as well.
\<close>

theorem hll_flux_cases:
  assumes "0 < rhoL" "0 < pL" "0 < rhoR" "0 < pR"
  shows
    "(let cfL = compute_fast_speed rhoL pL BxL ByL;
          cfR = compute_fast_speed rhoR pR BxR ByR;
          SL = min (uL - cfL) (uR - cfR);
          SR = max (uL + cfL) (uR + cfR);
          FL = physical_flux_x rhoL uL vL pL BxL ByL psiL;
          FR = physical_flux_x rhoR uR vR pR BxR ByR psiR;
          f = compute_hll_flux_x rhoL uL vL pL BxL ByL psiL rhoR uR vR pR BxR ByR psiR
      in (SL > 0 \<longrightarrow> f = FL) \<and> (SR < 0 \<longrightarrow> f = FR) \<and>
         (\<not> SL > 0 \<and> \<not> SR < 0 \<longrightarrow>
            f = (hll_componentwise SL SR FL FR
                   rhoL uL vL pL BxL ByL psiL rhoR uR vR pR BxR ByR psiR)
                \<lparr>F_psi := CH * CH * hll_average SL SR BxL BxR psiL psiR\<rparr>)) \<and>
     (let cfL = compute_fast_speed rhoL pL BxL ByL;
          cfR = compute_fast_speed rhoR pR BxR ByR;
          SL = min (vL - cfL) (vR - cfR);
          SR = max (vL + cfL) (vR + cfR);
          FL = physical_flux_y rhoL uL vL pL BxL ByL psiL;
          FR = physical_flux_y rhoR uR vR pR BxR ByR psiR;
          f = compute_hll_flux_y rhoL uL vL pL BxL ByL psiL rhoR uR vR pR BxR ByR psiR
      in (SL > 0 \<longrightarrow> f = FL) \<and> (SR < 0 \<longrightarrow> f = FR) \<and>
         (\<not> SL > 0 \<and> \<not> SR < 0 \<longrightarrow>
            f = (hll_componentwise SL SR FL FR
                   rhoL uL vL pL BxL ByL psiL rhoR uR vR pR BxR ByR psiR)
                \<lparr>F_psi := CH * CH * hll_average SL SR ByL ByR psiL psiR\<rparr>))"
proof -
  define cfL where "cfL = compute_fast_speed rhoL pL BxL ByL"
  define cfR where "cfR = compute_fast_speed rhoR pR BxR ByR"
  have cf: "0 \<le> cfL" "0 \<le> cfR"
    using assms by (simp_all add: cfL_def cfR_def fast_speed_nonneg)
  note defs = compute_hll_flux_x_def compute_hll_flux_y_def physical_flux_x_def
    physical_flux_y_def hll_componentwise_def hll_average_def total_energy_def
  have x: "(min (uL - cfL) (uR - cfR) > 0 \<longrightarrow>
              compute_hll_flux_x rhoL uL vL pL BxL ByL psiL rhoR uR vR pR BxR ByR psiR
              = physical_flux_x rhoL uL vL pL BxL ByL psiL) \<and>
           (max (uL + cfL) (uR + cfR) < 0 \<longrightarrow>
              compute_hll_flux_x rhoL uL vL pL BxL ByL psiL rhoR uR vR pR BxR ByR psiR
              = physical_flux_x rhoR uR vR pR BxR ByR psiR) \<and>
           (\<not> min (uL - cfL) (uR - cfR) > 0 \<and> \<not> max (uL + cfL) (uR + cfR) < 0 \<longrightarrow>
              compute_hll_flux_x rhoL uL vL pL BxL ByL psiL rhoR uR vR pR BxR ByR psiR
              = (hll_componentwise (min (uL - cfL) (uR - cfR)) (max (uL + cfL) (uR + cfR))
                   (physical_flux_x rhoL uL vL pL BxL ByL psiL)
                   (physical_flux_x rhoR uR vR pR BxR ByR psiR)
                   rhoL uL vL pL BxL ByL psiL rhoR uR vR pR BxR ByR psiR)
                \<lparr>F_psi := CH * CH * hll_average (min (uL - cfL) (uR - cfR))
                                    (max (uL + cfL) (uR + cfR)) BxL BxR psiL psiR\<rparr>)"
  proof -
    have le: "min (uL - cfL) (uR - cfR) \<le> max (uL + cfL) (uR + cfR)"
      using cf by (simp add: min_le_iff_disj le_max_iff_disj)
    consider (left) "min (uL - cfL) (uR - cfR) > 0"
      | (right) "\<not> min (uL - cfL) (uR - cfR) > 0" "max (uL + cfL) (uR + cfR) < 0"
      | (mid) "\<not> min (uL - cfL) (uR - cfR) > 0" "\<not> max (uL + cfL) (uR + cfR) < 0"
      by blast
    then show ?thesis
    proof cases
      case left
      then have "\<not> max (uL + cfL) (uR + cfR) < 0" using le by linarith
      with left show ?thesis
        by (auto simp: defs Let_def cfL_def [symmetric] cfR_def [symmetric])
    next
      case right
      then show ?thesis
        by (auto simp: defs Let_def cfL_def [symmetric] cfR_def [symmetric])
    next
      case mid
      then show ?thesis
        by (auto simp: defs Let_def cfL_def [symmetric] cfR_def [symmetric])
    qed
  qed
  have y: "(min (vL - cfL) (vR - cfR) > 0 \<longrightarrow>
              compute_hll_flux_y rhoL uL vL pL BxL ByL psiL rhoR uR vR pR BxR ByR psiR
              = physical_flux_y rhoL uL vL pL BxL ByL psiL) \<and>
           (max (vL + cfL) (vR + cfR) < 0 \<longrightarrow>
              compute_hll_flux_y rhoL uL vL pL BxL ByL psiL rhoR uR vR pR BxR ByR psiR
              = physical_flux_y rhoR uR vR pR BxR ByR psiR) \<and>
           (\<not> min (vL - cfL) (vR - cfR) > 0 \<and> \<not> max (vL + cfL) (vR + cfR) < 0 \<longrightarrow>
              compute_hll_flux_y rhoL uL vL pL BxL ByL psiL rhoR uR vR pR BxR ByR psiR
              = (hll_componentwise (min (vL - cfL) (vR - cfR)) (max (vL + cfL) (vR + cfR))
                   (physical_flux_y rhoL uL vL pL BxL ByL psiL)
                   (physical_flux_y rhoR uR vR pR BxR ByR psiR)
                   rhoL uL vL pL BxL ByL psiL rhoR uR vR pR BxR ByR psiR)
                \<lparr>F_psi := CH * CH * hll_average (min (vL - cfL) (vR - cfR))
                                    (max (vL + cfL) (vR + cfR)) ByL ByR psiL psiR\<rparr>)"
  proof -
    have le: "min (vL - cfL) (vR - cfR) \<le> max (vL + cfL) (vR + cfR)"
      using cf by (simp add: min_le_iff_disj le_max_iff_disj)
    consider (left) "min (vL - cfL) (vR - cfR) > 0"
      | (right) "\<not> min (vL - cfL) (vR - cfR) > 0" "max (vL + cfL) (vR + cfR) < 0"
      | (mid) "\<not> min (vL - cfL) (vR - cfR) > 0" "\<not> max (vL + cfL) (vR + cfR) < 0"
      by blast
    then show ?thesis
    proof cases
      case left
      then have "\<not> max (vL + cfL) (vR + cfR) < 0" using le by linarith
      with left show ?thesis
        by (auto simp: defs Let_def cfL_def [symmetric] cfR_def [symmetric])
    next
      case right
      then show ?thesis
        by (auto simp: defs Let_def cfL_def [symmetric] cfR_def [symmetric])
    next
      case mid
      then show ?thesis
        by (auto simp: defs Let_def cfL_def [symmetric] cfR_def [symmetric])
    qed
  qed
  show ?thesis
    unfolding Let_def cfL_def [symmetric] cfR_def [symmetric]
    using x y by blast
qed

theorem hll_flux_cases_witness:
  "F_psi (compute_hll_flux_x 1 0 0 (3 / 5) 0 0 0 1 0 0 (3 / 5) 0 0 1) = - (8 / 25) \<and>
   F_psi (compute_hll_flux_y 1 0 3 (3 / 5) 2 1 0 1 0 3 (3 / 5) 2 1 0) = 16 / 25"
proof -
  have pos: "(0::real) < 1" "(0::real) < 3 / 5" by simp_all
  have s1: "compute_fast_speed 1 (3 / 5) 0 0 = 1"
    by (simp add: compute_fast_speed_def gamma_gas_def)
  have "sqrt 6 < sqrt 9"
    by (subst real_sqrt_less_iff) simp
  then have s2: "compute_fast_speed 1 (3 / 5) 2 1 < 3"
    by (simp add: compute_fast_speed_def gamma_gas_def)
  show ?thesis
    using hll_flux_cases [OF pos pos, where uL = 0 and vL = 0 and BxL = 0 and ByL = 0
            and psiL = 0 and uR = 0 and vR = 0 and BxR = 0 and ByR = 0 and psiR = 1]
          hll_flux_cases [OF pos pos, where uL = 0 and vL = 3 and BxL = 2 and ByL = 1
            and psiL = 0 and uR = 0 and vR = 3 and BxR = 2 and ByR = 1 and psiR = 0] s2
    by (simp add: Let_def s1 hll_componentwise_def hll_average_def physical_flux_x_def
        physical_flux_y_def CH_def)
qed

section \<open>Periodicity after a step and the GLM source term\<close>

lemma upt_small [simp]: "[Suc 0..<2] = [Suc 0]" "[Suc 0..<3] = [Suc 0, 2]" "[Suc 0..<4] = [Suc 0, 2, 3]"
  by (simp_all add: upt_rec)

lemma flow_alt_data:
  "data (rho flow_alt) = replicate 4 (replicate 3 1)"
  "data (u flow_alt) = replicate 4 (replicate 3 0)"
  "data (v flow_alt) = replicate 4 (replicate 3 0)"
  "data (p flow_alt) = replicate 4 (replicate 3 (3 / 5))"
  "data (e flow_alt) = replicate 4 (replicate 3 (9 / 10))"
  "data (bx flow_alt) = replicate 4 (replicate 3 0)"
  "data (by' flow_alt) = replicate 4 (replicate 3 0)"
  "data (psi flow_alt) = [[1, 1, 1], [0, 0, 0], [1, 1, 1], [0, 0, 0]]"
  by (simp_all add: flow_alt_def unit_grid_def)

lemma flow_alt_cfl: "compute_cfl_timestep flow_alt cfl_number_default = 1 / 5"
  by (simp add: compute_cfl_timestep_def cell_dt_def compute_fast_speed_def flow_alt_data
      gamma_gas_def CH_def dt_huge_def cfl_number_default_def Let_def)

lemma flow_alt_dt: "clamped_dt flow_alt (1 / 10) = 1 / 10"
  by (simp add: clamped_dt_def flow_alt_cfl)

lemma flow_alt_recon_x:
  assumes "i < 4" "j < 3" "g \<in> set (all_grids flow_alt)"
  shows "recon_x flow_alt g s i j = data g ! i ! j"
proof -
  have "i \<in> {0, 1, 2, 3}" "j \<in> {0, 1, 2}"
    using assms(1,2) by auto
  then have "(if 1 \<le> i \<and> i + 1 < 4 then slope_x g i j else 0) = 0"
    using assms(3)
    by (auto simp: all_grids_def slope_x_def minmod_def flow_alt_data)
  then show ?thesis
    using assms(1,2) by (simp add: recon_x_def slopes_x_nth [OF flow_alt_valid])
qed

lemma flow_alt_recon_y:
  assumes "i < 4" "j < 3" "g \<in> set (all_grids flow_alt)"
  shows "recon_y flow_alt g s i j = data g ! i ! j"
proof -
  have "i \<in> {0, 1, 2, 3}" "j \<in> {0, 1, 2}"
    using assms(1,2) by auto
  then have "(if 1 \<le> j \<and> j + 1 < 3 then slope_y g i j else 0) = 0"
    using assms(3)
    by (auto simp: all_grids_def slope_y_def minmod_def flow_alt_data)
  then show ?thesis
    using assms(1,2) by (simp add: recon_y_def slopes_y_nth [OF flow_alt_valid])
qed

lemma flow_alt_grids [simp]:
  "rho flow_alt \<in> set (all_grids flow_alt)" "u flow_alt \<in> set (all_grids flow_alt)"
  "v flow_alt \<in> set (all_grids flow_alt)" "p flow_alt \<in> set (all_grids flow_alt)"
  "bx flow_alt \<in> set (all_grids flow_alt)" "by' flow_alt \<in> set (all_grids flow_alt)"
  "psi flow_alt \<in> set (all_grids flow_alt)"
  by (simp_all add: all_grids_def)

lemmas flow_alt_eval =
  glm_cell_def new_nth [OF flow_alt_valid] bx_cell_def by_cell_def psi_cell_def fv_update_def
  flux_xp_def flux_xm_def flux_yp_def flux_ym_def flow_alt_recon_x flow_alt_recon_y
  compute_hll_flux_x_def compute_hll_flux_y_def compute_fast_speed_def laplacian_def
  flow_alt_data flow_alt_dt gamma_gas_def CH_def CR_def ETA_def Let_def

lemma psi_after_0_1: "data (psi (solve_MHD flow_alt (1 / 10) 0)) ! 0 ! 1 = 999 / 1000"
  unfolding solve_MHD_def
  by (simp add: update_level_nth(8) [OF flow_alt_valid] flow_alt_eval)

lemma psi_after_2_1: "data (psi (solve_MHD flow_alt (1 / 10) 0)) ! 2 ! 1 = 116883 / 125000"
  unfolding solve_MHD_def
  by (simp add: update_level_nth(8) [OF flow_alt_valid] flow_alt_eval)

lemma periodic_array_iff:
  "periodic_array n m a \<longleftrightarrow>
     (\<forall>j<m. a ! 0 ! j = a ! (n - 2) ! j \<and> a ! (n - 1) ! j = a ! 1 ! j) \<and>
     (\<forall>i<n. a ! i ! 0 = a ! i ! (m - 2) \<and> a ! i ! (m - 1) = a ! i ! 1)"
  by (auto simp: periodic_array_def list_all_iff)

lemma wrap_wrap:
  "3 \<le> n \<Longrightarrow> wrap n (n - 2) = wrap n 0"
  "3 \<le> n \<Longrightarrow> wrap n (n - Suc 0) = wrap n (Suc 0)"
  by (auto simp: wrap_def)

text \<open>
  After a step the six fields the boundary loops write last, and the energy, are periodic:
  every boundary cell is a copy of the interior cell it mirrors.
\<close>

lemma fields_periodic_after_step:
  assumes "valid_flow flow"
  shows "periodic_array (nx (rho flow)) (ny (rho flow)) (data (rho (solve_MHD flow dt nu)))"
    "periodic_array (nx (rho flow)) (ny (rho flow)) (data (u (solve_MHD flow dt nu)))"
    "periodic_array (nx (rho flow)) (ny (rho flow)) (data (v (solve_MHD flow dt nu)))"
    "periodic_array (nx (rho flow)) (ny (rho flow)) (data (p (solve_MHD flow dt nu)))"
    "periodic_array (nx (rho flow)) (ny (rho flow)) (data (e (solve_MHD flow dt nu)))"
    "periodic_array (nx (rho flow)) (ny (rho flow)) (data (bx (solve_MHD flow dt nu)))"
    "periodic_array (nx (rho flow)) (ny (rho flow)) (data (by' (solve_MHD flow dt nu)))"
proof -
  note d = valid_flowD(1,2) [OF assms]
  have lt: "0 < nx (rho flow)" "nx (rho flow) - 2 < nx (rho flow)"
    "nx (rho flow) - 1 < nx (rho flow)" "1 < nx (rho flow)"
    "0 < ny (rho flow)" "ny (rho flow) - 2 < ny (rho flow)"
    "ny (rho flow) - 1 < ny (rho flow)" "1 < ny (rho flow)"
    using d by simp_all
  note w = wrap_wrap [OF d(1)] wrap_wrap [OF d(2)]
  note cell = update_level_nth [OF assms]
  show "periodic_array (nx (rho flow)) (ny (rho flow)) (data (rho (solve_MHD flow dt nu)))"
    unfolding periodic_array_iff solve_MHD_def using lt by (simp add: cell w)
  show "periodic_array (nx (rho flow)) (ny (rho flow)) (data (u (solve_MHD flow dt nu)))"
    unfolding periodic_array_iff solve_MHD_def using lt by (simp add: cell w)
  show "periodic_array (nx (rho flow)) (ny (rho flow)) (data (v (solve_MHD flow dt nu)))"
    unfolding periodic_array_iff solve_MHD_def using lt by (simp add: cell w)
  show "periodic_array (nx (rho flow)) (ny (rho flow)) (data (p (solve_MHD flow dt nu)))"
    unfolding periodic_array_iff solve_MHD_def using lt by (simp add: cell w)
  show "periodic_array (nx (rho flow)) (ny (rho flow)) (data (e (solve_MHD flow dt nu)))"
    unfolding periodic_array_iff solve_MHD_def using lt by (simp add: cell w)
  show "periodic_array (nx (rho flow)) (ny (rho flow)) (data (bx (solve_MHD flow dt nu)))"
    unfolding periodic_array_iff solve_MHD_def using lt by (simp add: cell w)
  show "periodic_array (nx (rho flow)) (ny (rho flow)) (data (by' (solve_MHD flow dt nu)))"
    unfolding periodic_array_iff solve_MHD_def using lt by (simp add: cell w)
qed

lemma flow_alt_periodic: "periodic_flow flow_alt"
  by (simp add: periodic_flow_def transported_def periodic_array_def flow_alt_data upt_rec)

text \<open>
  C3 at a periodic 4 by 3 state at rest whose \<open>psi\<close> alternates between the rows, with
  \<open>dt = 0.1\<close>: after the step \<open>psi[0][1]\<close> is \<open>0.999\<close> and \<open>psi[nx-2][1]\<close> is
  \<open>0.935064\<close>, so \<open>psi\<close> is not periodic. The last loop overwrites every cell of \<open>psi\<close>
  from temporaries whose boundary cells were never wrapped.
\<close>

theorem psi_not_periodic_after_step:
  "periodic_flow flow_alt \<and>
   data (psi (solve_MHD flow_alt (1 / 10) 0)) ! 0 ! 1 = 999 / 1000 \<and>
   data (psi (solve_MHD flow_alt (1 / 10) 0)) ! (nx (rho flow_alt) - 2) ! 1 = 116883 / 125000 \<and>
   \<not> periodic_array (nx (rho flow_alt)) (ny (rho flow_alt))
        (data (psi (solve_MHD flow_alt (1 / 10) 0)))"
proof -
  note a = psi_after_0_1 and b = psi_after_2_1
  have "\<not> periodic_array 4 3 (data (psi (solve_MHD flow_alt (1 / 10) 0)))"
  proof
    assume "periodic_array 4 3 (data (psi (solve_MHD flow_alt (1 / 10) 0)))"
    then have "data (psi (solve_MHD flow_alt (1 / 10) 0)) ! 0 ! 1
             = data (psi (solve_MHD flow_alt (1 / 10) 0)) ! (4 - 2) ! 1"
      unfolding periodic_array_iff by simp
    then show False using a b by simp
  qed
  then show ?thesis
    using a b flow_alt_periodic by simp
qed

text \<open>
  C4 at the same state and cell \<open>(0, 1)\<close>: the specified source term, taken from the
  wrapped preliminary \<open>psi\<close>, gives \<open>0.935064\<close>; the code, reading the unwrapped
  temporary, gives \<open>0.999\<close>.
\<close>

theorem glm_reads_unwrapped_temporaries:
  "psi_as_specified flow_alt (clamped_dt flow_alt (1 / 10)) 0 1 = 116883 / 125000 \<and>
   data (psi (solve_MHD flow_alt (1 / 10) 0)) ! 0 ! 1 = 999 / 1000"
proof -
  have dims: "has_dims (psi_new flow_alt (1 / 10)) 4 3" "has_dims (bx_new flow_alt (1 / 10)) 4 3"
    "has_dims (by_new flow_alt (1 / 10)) 4 3"
    using new_has_dims [OF flow_alt_valid] by simp_all
  have "psi_as_specified flow_alt (clamped_dt flow_alt (1 / 10)) 0 1 = 116883 / 125000"
    by (simp add: psi_as_specified_def periodic_bc_nth [OF _ _ dims(1)]
        periodic_bc_nth [OF _ _ dims(2)] periodic_bc_nth [OF _ _ dims(3)] wrap_def
        flow_alt_eval)
  then show ?thesis
    using psi_after_0_1 by simp
qed

section \<open>A constant state at rest\<close>


lemma replicate2_has_dims [simp]: "has_dims (replicate n (replicate m w)) n m"
  by (simp add: has_dims_iff)








lemma flow_cold_geometry [simp]:
  "nx (rho flow_cold) = 3" "ny (rho flow_cold) = 3" "dx (rho flow_cold) = 1" "dy (rho flow_cold) = 1"
  by (simp_all add: flow_cold_def unit_grid_def)






section \<open>Mass on the interior cells\<close>


lemma flow_ramp_geometry [simp]:
  "nx (rho flow_ramp) = 5" "ny (rho flow_ramp) = 3" "dx (rho flow_ramp) = 1" "dy (rho flow_ramp) = 1"
  by (simp_all add: flow_ramp_def unit_grid_def)



lemma interior_small [simp]: "interior 3 = [1]" "interior 4 = [1, 2]" "interior 5 = [1, 2, 3]"
  by (simp_all add: interior_def upt_rec)




















lemma flow_wave_data:
  "data (rho flow_wave) = replicate 4 (replicate 3 1)"
  "data (u flow_wave) = [[3 / 10, 3 / 10, 3 / 10], [1 / 10, 1 / 10, 1 / 10],
                         [3 / 10, 3 / 10, 3 / 10], [1 / 10, 1 / 10, 1 / 10]]"
  "data (v flow_wave) = replicate 4 (replicate 3 0)"
  "data (p flow_wave) = replicate 4 (replicate 3 (3 / 5))"
  "data (bx flow_wave) = replicate 4 (replicate 3 0)"
  "data (by' flow_wave) = replicate 4 (replicate 3 0)"
  "data (psi flow_wave) = replicate 4 (replicate 3 0)"
  by (simp_all add: flow_wave_def unit_grid_def)

lemma flow_wave_geometry [simp]:
  "nx (rho flow_wave) = 4" "ny (rho flow_wave) = 3" "dx (rho flow_wave) = 1" "dy (rho flow_wave) = 1"
  by (simp_all add: flow_wave_def unit_grid_def)

lemma flow_wave_valid: "valid_flow flow_wave"
  by (simp add: valid_flow_def all_grids_def flow_wave_def unit_grid_def has_dims_def list_all_iff)






section \<open>Physical states\<close>

lemma physical_flowD:
  assumes "physical_flow flow"
  shows "valid_flow flow" "0 < dx (rho flow)" "0 < dy (rho flow)"
    "0 < dx (u flow)" "0 < dy (u flow)" "0 < dx (v flow)" "0 < dy (v flow)"
    "0 < dx (bx flow)" "0 < dy (bx flow)" "0 < dx (by' flow)" "0 < dy (by' flow)"
  using assms by (simp_all add: physical_flow_def all_grids_def)

lemma positive_array_nth:
  "positive_array a \<Longrightarrow> has_dims a n m \<Longrightarrow> i < n \<Longrightarrow> j < m \<Longrightarrow> 0 < a ! i ! j"
  by (simp add: positive_array_def has_dims_iff list_all_length)

lemma physical_positive:
  assumes "physical_flow flow" "i < nx (rho flow)" "j < ny (rho flow)"
  shows "0 < data (rho flow) ! i ! j" "0 < data (p flow) ! i ! j"
proof -
  have v: "valid_flow flow"
    and pos: "positive_array (data (rho flow))" "positive_array (data (p flow))"
    using assms(1) by (simp_all add: physical_flow_def)
  note d = valid_flowD [OF v]
  show "0 < data (rho flow) ! i ! j"
    by (rule positive_array_nth [OF pos(1) d(3) assms(2,3)])
  show "0 < data (p flow) ! i ! j"
    by (rule positive_array_nth [OF pos(2) d(6) assms(2,3)])
qed

text \<open>
  The minmod slope keeps a reconstructed face value between the cell and its neighbour, so
  face values of a positive field are positive.
\<close>

lemma minmod_face_positive:
  assumes "0 < c" "0 < l" "0 < r"
  shows "0 < c + 0.5 * minmod (c - l) (r - c) \<and> 0 < c - 0.5 * minmod (c - l) (r - c)"
  using assms by (auto simp: minmod_def mult_le_0_iff abs_if split: if_splits) argo+


lemma physical_recon_positive:
  assumes ph: "physical_flow flow" and g: "g = rho flow \<or> g = p flow"
    and ij: "i < nx (rho flow)" "j < ny (rho flow)" and s: "s = 1 \<or> s = - 1"
  shows "0 < recon_x flow g s i j" "0 < recon_y flow g s i j"
proof -
  note v = physical_flowD(1) [OF ph]
  have pos: "0 < data g ! k ! l" if "k < nx (rho flow)" "l < ny (rho flow)" for k l
    using physical_positive [OF ph that] g by auto
  show "0 < recon_x flow g s i j"
  proof (cases "1 \<le> i \<and> i + 1 < nx (rho flow)")
    case True
    then have "i - 1 < nx (rho flow)" "i + 1 < nx (rho flow)" by linarith+
    then show ?thesis
      using minmod_face_positive [OF pos [OF ij] pos [of "i - 1" j] pos [of "i + 1" j]] ij s True
      by (auto simp: recon_x_def slopes_x_nth [OF v ij] slope_x_def)
  next
    case False
    then show ?thesis
      using pos [OF ij] by (auto simp: recon_x_def slopes_x_nth [OF v ij])
  qed
  show "0 < recon_y flow g s i j"
  proof (cases "1 \<le> j \<and> j + 1 < ny (rho flow)")
    case True
    then have "j - 1 < ny (rho flow)" "j + 1 < ny (rho flow)" by linarith+
    then show ?thesis
      using minmod_face_positive [OF pos [OF ij] pos [of i "j - 1"] pos [of i "j + 1"]] ij s True
      by (auto simp: recon_y_def slopes_y_nth [OF v ij] slope_y_def)
  next
    case False
    then show ?thesis
      using pos [OF ij] by (auto simp: recon_y_def slopes_y_nth [OF v ij])
  qed
qed

lemma fast_speed_positive:
  "0 < r \<Longrightarrow> 0 < q \<Longrightarrow> 0 < compute_fast_speed r q b1 b2"
proof -
  assume "0 < r" "0 < q"
  then have "0 < gamma_gas * q / r" "0 \<le> (b1 * b1 + b2 * b2) / r"
    by (simp_all add: gamma_gas_def)
  then have "0 < gamma_gas * q / r + (b1 * b1 + b2 * b2) / r" by linarith
  then show ?thesis by (simp add: compute_fast_speed_def Let_def)
qed

lemma signal_speeds_ordered:
  "0 < cfL \<Longrightarrow> 0 < cfR \<Longrightarrow> min (a - cfL) (b - cfR) < max (a + cfL) (b + cfR)"
  for a b cfL cfR :: real
  by (simp add: min_less_iff_disj less_max_iff_disj)

text \<open>
  On a physical state the model divides by nonzero numbers only. The denominators of the
  step are: the spacings; the density and \<open>|u| + c\<^sub>f\<close>, \<open>|v| + c\<^sub>f\<close> in the CFL scan; the
  face densities and \<open>S\<^sub>R - S\<^sub>L\<close> in the Riemann solver; and the new density when the
  velocities are recovered. The square roots are those of the fast speed, whose argument is
  positive.
\<close>

lemma physical_cfl_denominators:
  assumes ph: "physical_flow flow" and ij: "i < nx (rho flow)" "j < ny (rho flow)"
  shows "0 < \<bar>data (u flow) ! i ! j\<bar>
             + compute_fast_speed (data (rho flow) ! i ! j) (data (p flow) ! i ! j)
                 (data (bx flow) ! i ! j) (data (by' flow) ! i ! j)"
    "0 < \<bar>data (v flow) ! i ! j\<bar>
             + compute_fast_speed (data (rho flow) ! i ! j) (data (p flow) ! i ! j)
                 (data (bx flow) ! i ! j) (data (by' flow) ! i ! j)"
  using fast_speed_positive [OF physical_positive [OF ph ij],
      of "data (bx flow) ! i ! j" "data (by' flow) ! i ! j"]
  by simp_all

lemma physical_face_speeds:
  assumes "0 < rhoL" "0 < pL" "0 < rhoR" "0 < pR"
  shows "0 < max (a + compute_fast_speed rhoL pL BxL ByL) (b + compute_fast_speed rhoR pR BxR ByR)
           - min (a - compute_fast_speed rhoL pL BxL ByL) (b - compute_fast_speed rhoR pR BxR ByR)"
  using signal_speeds_ordered [OF fast_speed_positive [OF assms(1,2)]
      fast_speed_positive [OF assms(3,4)], of a BxL ByL b BxR ByR]
  by simp

lemma physical_new_density_positive:
  assumes ph: "physical_flow flow" and ij: "i < nx (rho flow)" "j < ny (rho flow)"
  shows "0 < rho_new flow dt ! i ! j"
proof -
  have "0 < floor_val" by (simp add: floor_val_def)
  then have "0 < rho_cell flow dt i j"
    by (simp add: rho_cell_def less_max_iff_disj)
  then show ?thesis
    using physical_positive(1) [OF ph ij]
    by (simp add: new_nth(1) [OF physical_flowD(1) [OF ph] ij])
qed


lemma flow_alt_physical: "physical_flow flow_alt"
  using flow_alt_valid
  by (simp add: physical_flow_def positive_array_def all_grids_def flow_alt_def unit_grid_def
      list_all_iff)

lemma flow_wave_physical: "physical_flow flow_wave"
  using flow_wave_valid
  by (simp add: physical_flow_def positive_array_def all_grids_def flow_wave_def unit_grid_def
      list_all_iff)

lemma flow_wave_cfl: "compute_cfl_timestep flow_wave (1 / 5) = 2 / 13"
  by (simp add: compute_cfl_timestep_def cell_dt_def compute_fast_speed_def flow_wave_data
      gamma_gas_def CH_def dt_huge_def Let_def)

section \<open>Positivity floors\<close>

text \<open>
  C5. After one call to \<open>solve_MHD\<close> on a valid state with positive density, pressure
  and spacings, every cell of the grid, boundary cells included, has density at least
  \<open>1e-10\<close> and total energy at least \<open>1e-10\<close>, for every \<open>dt\<close> and every viscosity.
\<close>

theorem floors_hold_after_step:
  assumes "physical_flow flow" "k < nx (rho flow)" "l < ny (rho flow)"
  shows "1 / 10 ^ 10 \<le> data (rho (solve_MHD flow dt nu)) ! k ! l \<and>
         1 / 10 ^ 10 \<le> data (e (solve_MHD flow dt nu)) ! k ! l"
  unfolding solve_MHD_def update_level_nth [OF physical_flowD(1) [OF assms(1)] assms(2,3)]
  by (simp add: rho_cell_def e_cell_def Let_def floor_val_def)

theorem floors_hold_after_step_witness:
  "physical_flow flow_wave \<and>
   1 / 10 ^ 10 \<le> data (rho (solve_MHD flow_wave (1 / 10) 0)) ! 0 ! 2 \<and>
   1 / 10 ^ 10 \<le> data (e (solve_MHD flow_wave (1 / 10) 0)) ! 0 ! 2"
  using floors_hold_after_step [OF flow_wave_physical, of 0 2 "1 / 10" 0] flow_wave_physical
  by simp

section \<open>The CFL timestep formula\<close>

text \<open>
  C6. On a valid state with positive density, pressure and spacings,
  \<open>compute_cfl_timestep flow cfl_number\<close> is \<open>cfl_number * min physical_min glm_bound\<close>,
  where \<open>physical_min\<close> is the minimum over the interior cells of
  \<open>min (dx / (|u| + c\<^sub>f)) (dy / (|v| + c\<^sub>f))\<close> and is replaced by \<open>glm_bound\<close> when it
  exceeds 1; the default \<open>cfl_number\<close> is 0.2.
\<close>

theorem cfl_timestep_formula:
  assumes "physical_flow flow"
  shows "compute_cfl_timestep flow cfl_number =
           cfl_number * min (if physical_min flow > 1 then glm_bound flow else physical_min flow)
                            (glm_bound flow) \<and>
         cfl_number_default = 0.2"
proof -
  note d = valid_flowD(1,2) [OF physical_flowD(1) [OF assms]]
  let ?A = "(\<lambda>(i, j). cell_candidate flow i j) `
              ({1..<nx (rho flow) - 1} \<times> {1..<ny (rho flow) - 1})"
  have fin: "finite ?A" by simp
  have "1 < nx (rho flow) - 1" "1 < ny (rho flow) - 1"
    using d by linarith+
  then have ne: "?A \<noteq> {}" by simp
  let ?d0 = "fold (\<lambda>i. fold (\<lambda>j acc. min acc (cell_dt flow i j)) [1..<ny (rho flow) - 1])
               [1..<nx (rho flow) - 1] dt_huge"
  have d0: "?d0 = min dt_huge (physical_min flow)"
    using fin ne by (simp add: fold_min_nested cell_dt_candidate physical_min_def)
  have huge: "1 < dt_huge" by (simp add: dt_huge_def)
  have key: "(if ?d0 > 1 then glm_bound flow else ?d0)
        = (if physical_min flow > 1 then glm_bound flow else physical_min flow)"
    unfolding d0 using huge by (auto simp: min_def)
  have g: "min (dx (rho flow)) (dy (rho flow)) / CH = glm_bound flow"
    by (simp add: glm_bound_def CH_def)
  have "compute_cfl_timestep flow cfl_number =
          cfl_number * min (if ?d0 > 1 then glm_bound flow else ?d0) (glm_bound flow)"
    unfolding compute_cfl_timestep_def Let_def g ..
  then show ?thesis
    unfolding key by (simp add: cfl_number_default_def)
qed

theorem cfl_timestep_formula_witness:
  "physical_flow flow_wave \<and> compute_cfl_timestep flow_wave 0.2 = 2 / 13 \<and>
   min (if physical_min flow_wave > 1 then glm_bound flow_wave else physical_min flow_wave)
       (glm_bound flow_wave) = 10 / 13"
  using cfl_timestep_formula [OF flow_wave_physical, of "0.2"] flow_wave_cfl flow_wave_physical
  by simp


section \<open>Magnetic diffusion\<close>

lemma flow_spot_data:
  "data (rho flow_spot) = replicate 3 (replicate 3 1)"
  "data (u flow_spot) = replicate 3 (replicate 3 0)"
  "data (v flow_spot) = replicate 3 (replicate 3 0)"
  "data (p flow_spot) = [[12 / 5, 12 / 5, 12 / 5], [12 / 5, 9 / 5, 12 / 5], [12 / 5, 12 / 5, 12 / 5]]"
  "data (bx flow_spot) = [[0, 0, 0], [0, 1, 0], [0, 0, 0]]"
  "data (by' flow_spot) = replicate 3 (replicate 3 0)"
  "data (psi flow_spot) = replicate 3 (replicate 3 0)"
  by (simp_all add: flow_spot_def unit_grid_def)

lemma flow_spot_geometry [simp]:
  "nx (rho flow_spot) = 3" "ny (rho flow_spot) = 3" "dx (rho flow_spot) = 1" "dy (rho flow_spot) = 1"
  "dx (bx flow_spot) = 1" "dy (bx flow_spot) = 1" "dx (by' flow_spot) = 1" "dy (by' flow_spot) = 1"
  by (simp_all add: flow_spot_def unit_grid_def)

lemma flow_spot_valid: "valid_flow flow_spot"
  by (simp add: valid_flow_def all_grids_def flow_spot_def unit_grid_def has_dims_def list_all_iff)

lemma flow_spot_physical: "physical_flow flow_spot"
  using flow_spot_valid
  by (simp add: physical_flow_def positive_array_def all_grids_def flow_spot_def unit_grid_def
      list_all_iff)

lemma flow_spot_cfl: "compute_cfl_timestep flow_spot (1 / 5) = 1 / 10"
  by (simp add: compute_cfl_timestep_def cell_dt_def compute_fast_speed_def flow_spot_data
      gamma_gas_def CH_def dt_huge_def Let_def)

lemma flow_spot_fluxes:
  "F_Bx (flux_xp flow_spot (Suc 0) (Suc 0)) = 1"
  "F_Bx (flux_xm flow_spot (Suc 0) (Suc 0)) = - 1"
  "F_Bx (flux_yp flow_spot (Suc 0) (Suc 0)) = 1"
  "F_Bx (flux_ym flow_spot (Suc 0) (Suc 0)) = - 1"
  by (simp_all add: flux_xp_def flux_xm_def flux_yp_def flux_ym_def recon_x_def recon_y_def
      slopes_x_nth [OF flow_spot_valid] slopes_y_nth [OF flow_spot_valid] slope_x_def slope_y_def
      minmod_def compute_hll_flux_x_def compute_hll_flux_y_def compute_fast_speed_def
      flow_spot_data gamma_gas_def CH_def Let_def)


lemma bx_after_step:
  assumes v: "valid_flow flow"
    and ij: "1 \<le> i" "i + 1 < nx (rho flow)" "1 \<le> j" "j + 1 < ny (rho flow)"
  shows "data (bx (solve_MHD flow dt nu)) ! i ! j =
           fv_update flow (clamped_dt flow dt) F_Bx (data (bx flow) ! i ! j) i j
           + clamped_dt flow dt * 0.001 * laplacian (bx flow) i j"
    "data (by' (solve_MHD flow dt nu)) ! i ! j =
           fv_update flow (clamped_dt flow dt) F_By (data (by' flow) ! i ! j) i j
           + clamped_dt flow dt * 0.001 * laplacian (by' flow) i j"
proof -
  have lt: "i < nx (rho flow)" "j < ny (rho flow)"
    using ij by simp_all
  have w: "wrap (nx (rho flow)) i = i" "wrap (ny (rho flow)) j = j"
    using ij by (simp_all add: wrap_id)
  show "data (bx (solve_MHD flow dt nu)) ! i ! j =
           fv_update flow (clamped_dt flow dt) F_Bx (data (bx flow) ! i ! j) i j
           + clamped_dt flow dt * 0.001 * laplacian (bx flow) i j"
    "data (by' (solve_MHD flow dt nu)) ! i ! j =
           fv_update flow (clamped_dt flow dt) F_By (data (by' flow) ! i ! j) i j
           + clamped_dt flow dt * 0.001 * laplacian (by' flow) i j"
    unfolding solve_MHD_def update_level_nth [OF v lt] w
    by (simp_all add: bx_cell_def by_cell_def ETA_def Let_def)
qed

lemma clamped_dt_min: "clamped_dt flow dt = min dt (compute_cfl_timestep flow 0.2)"
  by (simp add: clamped_dt_def cfl_number_default_def)

text \<open>
  C10, as stated, fails when the caller's \<open>dt\<close> exceeds the CFL timestep. At \<open>flow_spot\<close>
  the CFL timestep is \<open>0.1\<close>; called with \<open>dt = 1\<close> and no viscosity, the step leaves
  \<open>Bx = 0.5996\<close> in the centre cell: the flux update \<open>0.6\<close> plus the diffusion term
  \<open>0.1 * 0.001 * (-4)\<close>, not plus \<open>1 * 0.001 * (-4)\<close>.
\<close>

theorem diffusion_uses_clamped_dt_counterexample:
  "physical_flow flow_spot \<and> \<not> diffusion_as_claimed flow_spot 1 0 1 1"
proof -
  have dt: "clamped_dt flow_spot 1 = 1 / 10"
    by (simp add: clamped_dt_min flow_spot_cfl)
  have fv: "fv_update flow_spot (1 / 10) F_Bx (data (bx flow_spot) ! 1 ! 1) 1 1 = 3 / 5"
    by (simp add: fv_update_def flow_spot_fluxes flow_spot_data)
  have lap: "laplacian (bx flow_spot) 1 1 = - 4"
    by (simp add: laplacian_def flow_spot_data)
  have new: "data (bx (solve_MHD flow_spot 1 0)) ! 1 ! 1 = 1499 / 2500"
    using bx_after_step(1) [OF flow_spot_valid, of 1 1 1 0] dt fv lap
    by simp
  have "\<not> diffusion_as_claimed flow_spot 1 0 1 1"
  proof
    assume "diffusion_as_claimed flow_spot 1 0 1 1"
    then have "data (bx (solve_MHD flow_spot 1 0)) ! 1 ! 1 =
        fv_update flow_spot (clamped_dt flow_spot 1) F_Bx (data (bx flow_spot) ! 1 ! 1) 1 1
        + 1 * 0.001 * laplacian (bx flow_spot) 1 1"
      by (simp add: diffusion_as_claimed_def Let_def laplacian_def)
    then have "(1499 / 2500 :: real) = 3 / 5 + 1 * 0.001 * (- 4)"
      unfolding new dt fv lap .
    then show False by simp
  qed
  then show ?thesis
    using flow_spot_physical by simp
qed

text \<open>
  C10, amended. For every valid state with positive density, pressure and spacings, every
  \<open>dt\<close> and every viscosity (zero included), the new \<open>Bx\<close> and \<open>By\<close> of every interior
  cell are the finite-volume flux update plus the diffusion term
  \<open>dt_used * 0.001 * Laplacian\<close>, where \<open>dt_used = min dt (compute_cfl_timestep flow 0.2)\<close>
  is the timestep of the update and the Laplacian is the five-point stencil of the old
  field with that field's own spacings. The guard \<open>ETA > 0\<close> always holds, so no argument
  of \<open>solve_MHD\<close> disables the term. When \<open>dt\<close> does not exceed the CFL timestep, the
  term is \<open>dt * 0.001 * Laplacian\<close> as the claim words it.
\<close>

theorem magnetic_diffusion_always_on:
  assumes ph: "physical_flow flow"
    and ij: "1 \<le> i" "i + 1 < nx (rho flow)" "1 \<le> j" "j + 1 < ny (rho flow)"
  shows
    "(let dtu = min dt (compute_cfl_timestep flow 0.2)
      in data (bx (solve_MHD flow dt nu)) ! i ! j =
           data (bx flow) ! i ! j
           - dtu / dx (rho flow) * (F_Bx (flux_xp flow i j) - F_Bx (flux_xm flow i j))
           - dtu / dy (rho flow) * (F_Bx (flux_yp flow i j) - F_Bx (flux_ym flow i j))
           + dtu * 0.001 *
               ((data (bx flow) ! (i + 1) ! j - 2 * data (bx flow) ! i ! j
                   + data (bx flow) ! (i - 1) ! j) / (dx (bx flow) * dx (bx flow))
              + (data (bx flow) ! i ! (j + 1) - 2 * data (bx flow) ! i ! j
                   + data (bx flow) ! i ! (j - 1)) / (dy (bx flow) * dy (bx flow))) \<and>
         data (by' (solve_MHD flow dt nu)) ! i ! j =
           data (by' flow) ! i ! j
           - dtu / dx (rho flow) * (F_By (flux_xp flow i j) - F_By (flux_xm flow i j))
           - dtu / dy (rho flow) * (F_By (flux_yp flow i j) - F_By (flux_ym flow i j))
           + dtu * 0.001 *
               ((data (by' flow) ! (i + 1) ! j - 2 * data (by' flow) ! i ! j
                   + data (by' flow) ! (i - 1) ! j) / (dx (by' flow) * dx (by' flow))
              + (data (by' flow) ! i ! (j + 1) - 2 * data (by' flow) ! i ! j
                   + data (by' flow) ! i ! (j - 1)) / (dy (by' flow) * dy (by' flow)))) \<and>
     (dt \<le> compute_cfl_timestep flow 0.2 \<longrightarrow> diffusion_as_claimed flow dt nu i j)"
proof (intro conjI impI)
  note v = physical_flowD(1) [OF ph]
  note b = bx_after_step [OF v ij, of dt nu]
  show "let dtu = min dt (compute_cfl_timestep flow 0.2)
      in data (bx (solve_MHD flow dt nu)) ! i ! j =
           data (bx flow) ! i ! j
           - dtu / dx (rho flow) * (F_Bx (flux_xp flow i j) - F_Bx (flux_xm flow i j))
           - dtu / dy (rho flow) * (F_Bx (flux_yp flow i j) - F_Bx (flux_ym flow i j))
           + dtu * 0.001 *
               ((data (bx flow) ! (i + 1) ! j - 2 * data (bx flow) ! i ! j
                   + data (bx flow) ! (i - 1) ! j) / (dx (bx flow) * dx (bx flow))
              + (data (bx flow) ! i ! (j + 1) - 2 * data (bx flow) ! i ! j
                   + data (bx flow) ! i ! (j - 1)) / (dy (bx flow) * dy (bx flow))) \<and>
         data (by' (solve_MHD flow dt nu)) ! i ! j =
           data (by' flow) ! i ! j
           - dtu / dx (rho flow) * (F_By (flux_xp flow i j) - F_By (flux_xm flow i j))
           - dtu / dy (rho flow) * (F_By (flux_yp flow i j) - F_By (flux_ym flow i j))
           + dtu * 0.001 *
               ((data (by' flow) ! (i + 1) ! j - 2 * data (by' flow) ! i ! j
                   + data (by' flow) ! (i - 1) ! j) / (dx (by' flow) * dx (by' flow))
              + (data (by' flow) ! i ! (j + 1) - 2 * data (by' flow) ! i ! j
                   + data (by' flow) ! i ! (j - 1)) / (dy (by' flow) * dy (by' flow)))"
    unfolding Let_def b clamped_dt_min fv_update_def laplacian_def
    by (simp add: Let_def)
next
  assume "dt \<le> compute_cfl_timestep flow 0.2"
  then have "clamped_dt flow dt = dt"
    by (simp add: clamped_dt_min)
  then show "diffusion_as_claimed flow dt nu i j"
    using bx_after_step [OF physical_flowD(1) [OF ph] ij, of dt nu]
    by (simp add: diffusion_as_claimed_def Let_def laplacian_def)
qed

theorem magnetic_diffusion_always_on_witness:
  "physical_flow flow_spot \<and> compute_cfl_timestep flow_spot 0.2 = 1 / 10 \<and>
   data (bx (solve_MHD flow_spot 1 0)) ! 1 ! 1 = 1499 / 2500 \<and>
   data (bx (solve_MHD flow_spot 1 (1 / 100))) ! 1 ! 1 = 1499 / 2500 \<and>
   diffusion_as_claimed flow_spot (1 / 20) 0 1 1"
proof -
  have ij: "(1::nat) \<le> 1" "(1::nat) + 1 < nx (rho flow_spot)" "(1::nat) + 1 < ny (rho flow_spot)"
    by simp_all
  note t = magnetic_diffusion_always_on [OF flow_spot_physical ij(1,2) ij(1,3)]
  have a: "data (bx (solve_MHD flow_spot 1 0)) ! 1 ! 1 = 1499 / 2500"
    using t [of 1 0] by (simp add: Let_def flow_spot_cfl flow_spot_fluxes flow_spot_data)
  have b: "data (bx (solve_MHD flow_spot 1 (1 / 100))) ! 1 ! 1 = 1499 / 2500"
    using t [of 1 "1 / 100"] by (simp add: Let_def flow_spot_cfl flow_spot_fluxes flow_spot_data)
  have c: "diffusion_as_claimed flow_spot (1 / 20) 0 1 1"
    using t [of "1 / 20" 0] by (simp add: flow_spot_cfl)
  show ?thesis
    using a b c flow_spot_physical flow_spot_cfl by simp
qed


section \<open>The timestep of the update and what the entry point returns\<close>

lemma flow_wave_mass_fluxes:
  "F_rho (flux_xp flow_wave (Suc 0) (Suc 0)) - F_rho (flux_xm flow_wave (Suc 0) (Suc 0)) = - (2 / 55)"
  "F_rho (flux_yp flow_wave (Suc 0) (Suc 0)) - F_rho (flux_ym flow_wave (Suc 0) (Suc 0)) = 0"
  by (simp_all add: flux_xp_def flux_xm_def flux_yp_def flux_ym_def recon_x_def recon_y_def
      slopes_x_nth [OF flow_wave_valid] slopes_y_nth [OF flow_wave_valid] slope_x_def slope_y_def
      minmod_def compute_hll_flux_x_def compute_hll_flux_y_def compute_fast_speed_def
      flow_wave_data gamma_gas_def CH_def Let_def)

text \<open>
  C2, as stated, fails: \<open>solve_MHD\<close> returns no value, so it does not return the clamped
  timestep.
\<close>

theorem solve_MHD_return_counterexample:
  "solve_MHD_return flow_alt (1 / 10) 0 \<noteq> Some (min (1 / 10) (compute_cfl_timestep flow_alt 0.2))"
  by (simp add: solve_MHD_return_def)

text \<open>
  C2, amended. \<open>solve_MHD\<close> yields no value to its caller. On a valid state with positive
  density, pressure and spacings, the update it performs uses the timestep
  \<open>dt_used = min dt (compute_cfl_timestep flow 0.2)\<close>: in every interior cell the new
  density is the old one minus \<open>dt_used/dx\<close> and \<open>dt_used/dy\<close> times the mass-flux
  differences, floored at \<open>1e-10\<close>, and the new total energy is the old one minus
  \<open>dt_used/dx\<close> and \<open>dt_used/dy\<close> times the energy-flux differences, raised to the
  kinetic plus magnetic energy plus \<open>1e-10\<close> when below it, and floored at \<open>1e-10\<close>.
  The state left by the call is the one left by a call with \<open>dt_used\<close> itself.
\<close>

theorem solve_MHD_uses_clamped_dt:
  assumes ph: "physical_flow flow"
    and ij: "1 \<le> i" "i + 1 < nx (rho flow)" "1 \<le> j" "j + 1 < ny (rho flow)"
  shows
    "solve_MHD_return flow dt nu = None \<and>
     (let dtu = min dt (compute_cfl_timestep flow 0.2);
          rho1 = data (rho flow) ! i ! j
                 - dtu / dx (rho flow) * (F_rho (flux_xp flow i j) - F_rho (flux_xm flow i j))
                 - dtu / dy (rho flow) * (F_rho (flux_yp flow i j) - F_rho (flux_ym flow i j));
          e1 = data (e flow) ! i ! j
                 - dtu / dx (rho flow) * (F_E (flux_xp flow i j) - F_E (flux_xm flow i j))
                 - dtu / dy (rho flow) * (F_E (flux_yp flow i j) - F_E (flux_ym flow i j));
          ke = 0.5 * rho1 * (data (u flow) ! i ! j * data (u flow) ! i ! j
                            + data (v flow) ! i ! j * data (v flow) ! i ! j);
          me = 0.5 * (data (bx flow) ! i ! j * data (bx flow) ! i ! j
                     + data (by' flow) ! i ! j * data (by' flow) ! i ! j)
      in data (rho (solve_MHD flow dt nu)) ! i ! j = max rho1 (1 / 10 ^ 10) \<and>
         data (e (solve_MHD flow dt nu)) ! i ! j =
           max (if e1 < ke + me + 1 / 10 ^ 10 then ke + me + 1 / 10 ^ 10 else e1) (1 / 10 ^ 10)) \<and>
     solve_MHD flow dt nu = solve_MHD flow (min dt (compute_cfl_timestep flow 0.2)) nu"
proof (intro conjI)
  note v = physical_flowD(1) [OF ph]
  have lt: "i < nx (rho flow)" "j < ny (rho flow)"
    using ij by simp_all
  have w: "wrap (nx (rho flow)) i = i" "wrap (ny (rho flow)) j = j"
    using ij by (simp_all add: wrap_id)
  show "solve_MHD_return flow dt nu = None"
    by (simp add: solve_MHD_return_def)
  show "let dtu = min dt (compute_cfl_timestep flow 0.2);
          rho1 = data (rho flow) ! i ! j
                 - dtu / dx (rho flow) * (F_rho (flux_xp flow i j) - F_rho (flux_xm flow i j))
                 - dtu / dy (rho flow) * (F_rho (flux_yp flow i j) - F_rho (flux_ym flow i j));
          e1 = data (e flow) ! i ! j
                 - dtu / dx (rho flow) * (F_E (flux_xp flow i j) - F_E (flux_xm flow i j))
                 - dtu / dy (rho flow) * (F_E (flux_yp flow i j) - F_E (flux_ym flow i j));
          ke = 0.5 * rho1 * (data (u flow) ! i ! j * data (u flow) ! i ! j
                            + data (v flow) ! i ! j * data (v flow) ! i ! j);
          me = 0.5 * (data (bx flow) ! i ! j * data (bx flow) ! i ! j
                     + data (by' flow) ! i ! j * data (by' flow) ! i ! j)
      in data (rho (solve_MHD flow dt nu)) ! i ! j = max rho1 (1 / 10 ^ 10) \<and>
         data (e (solve_MHD flow dt nu)) ! i ! j =
           max (if e1 < ke + me + 1 / 10 ^ 10 then ke + me + 1 / 10 ^ 10 else e1) (1 / 10 ^ 10)"
    unfolding solve_MHD_def update_level_nth [OF v lt] w clamped_dt_min
    by (simp add: rho_cell_def e_cell_def rho_upd_def fv_update_def floor_val_def Let_def)
  have "clamped_dt flow (min dt (compute_cfl_timestep flow 0.2)) = clamped_dt flow dt"
    by (simp add: clamped_dt_min)
  then show "solve_MHD flow dt nu = solve_MHD flow (min dt (compute_cfl_timestep flow 0.2)) nu"
    by (simp add: solve_MHD_def update_level_def)
qed


theorem solve_MHD_uses_clamped_dt_witness:
  "physical_flow flow_wave \<and> compute_cfl_timestep flow_wave 0.2 = 2 / 13 \<and>
   data (rho (solve_MHD flow_wave 1 0)) ! 1 ! 1 = 719 / 715 \<and>
   data (rho (solve_MHD flow_wave (1 / 10) 0)) ! 1 ! 1 = 276 / 275"
proof -
  have ij: "(1::nat) \<le> 1" "(1::nat) + 1 < nx (rho flow_wave)" "(1::nat) + 1 < ny (rho flow_wave)"
    by simp_all
  note t = solve_MHD_uses_clamped_dt [OF flow_wave_physical ij(1,2) ij(1,3)]
  have a: "data (rho (solve_MHD flow_wave 1 0)) ! 1 ! 1 = 719 / 715"
    using conjunct1 [OF conjunct2 [OF t [of 1 0]]]
    by (simp add: Let_def flow_wave_cfl flow_wave_mass_fluxes flow_wave_data)
  have b: "data (rho (solve_MHD flow_wave (1 / 10) 0)) ! 1 ! 1 = 276 / 275"
    using conjunct1 [OF conjunct2 [OF t [of "1 / 10" 0]]]
    by (simp add: Let_def flow_wave_cfl flow_wave_mass_fluxes flow_wave_data)
  show ?thesis
    using a b flow_wave_physical flow_wave_cfl by simp
qed

end
